theory Spec2Isabelle
  imports Complex_Main
begin

section \<open>Data model\<close>

text \<open>
  The persisted schema (schema.prisma, and the interfaces of types.ts): three tables of
  rows owned by this plugin, and the Item table of the shopping plugin that ingredient
  lines reference. Row ids are uuids, modelled by natural numbers drawn from a counter;
  user, family and item ids come from outside and are strings. Int columns are \<open>int\<close>,
  the Float column is \<open>rat\<close>, a nullable column is an option, and a DateTime is the
  number of the clock tick at which it was written.

  The raw \<open>INSERT\<close> statements of prisma/client.ts take their row id from the SQL function
  \<open>uuid_generate_v4()\<close>. The function is the database's, not the repository's:
  PostgreSQL's uuid-ossp extension defines it, SQLite does not, and the schema declares
  \<open>provider = "sqlite"\<close>. \<open>db_uuid_generate_v4\<close> says whether the database of the store
  defines it; where it does not, a statement that calls it fails. The ids of the Prisma
  delegates (\<open>@default(uuid())\<close>) are generated by the client and need no such function.
\<close>

datatype Difficulty = EASY | MEDIUM | HARD

record Recipe =
  r_id :: nat
  r_name :: string
  r_description :: "string option"
  r_instructions :: string
  r_prepTime :: int
  r_cookTime :: int
  r_servings :: int
  r_difficulty :: Difficulty
  r_usageCount :: int
  r_userId :: string
  r_familyId :: string
  r_createdAt :: nat
  r_updatedAt :: nat

record RecipeIngredient =
  ri_id :: nat
  ri_recipeId :: nat
  ri_itemId :: string
  ri_quantity :: rat
  ri_unit :: string
  ri_notes :: "string option"
  ri_createdAt :: nat
  ri_updatedAt :: nat

record RecipeRating =
  rr_id :: nat
  rr_recipeId :: nat
  rr_userId :: string
  rr_nutrition :: "int option"
  rr_flavor :: "int option"
  rr_difficulty :: "int option"
  rr_comment :: "string option"
  rr_createdAt :: nat
  rr_updatedAt :: nat

record Item =
  i_id :: string
  i_name :: string

record store =
  Recipe_tbl :: "Recipe list"
  RecipeIngredient_tbl :: "RecipeIngredient list"
  RecipeRating_tbl :: "RecipeRating list"
  Item_tbl :: "Item list"
  nextId :: nat
  db_uuid_generate_v4 :: bool

text \<open>
  What the code can throw: a \<open>RecipeError\<close> with its code (the controller), a plain
  \<open>Error\<close> with its message (the service and the client), zod's validation error, the
  \<open>TypeError\<close> of \<open>Prisma.join\<close> on an empty array, and the failures of the store that
  the operations below can meet: a statement that calls an SQL function the database
  does not define, a foreign-key violation, and Prisma's P2025 (the record of an update
  or delete does not exist).
\<close>

datatype RecipeErrorCode = VALIDATION_ERROR | FORBIDDEN | RECIPE_NOT_FOUND | INTERNAL_ERROR

datatype error =
    RecipeError RecipeErrorCode
  | Error string
  | ZodError
  | JoinTypeError
  | NoSuchFunction
  | ForeignKeyViolation
  | RecordNotFound

section \<open>JavaScript truthiness\<close>

text \<open>
  \<open>x || null\<close> on an optional number keeps a non-zero number and turns \<open>undefined\<close> and
  \<open>0\<close> into \<open>null\<close>; on an optional string it turns \<open>undefined\<close> and the empty string
  into \<open>null\<close>. A condition \<open>if (x)\<close> holds under the same test.
\<close>

definition num_or_null :: "'a::zero option \<Rightarrow> 'a option" where
  "num_or_null v = (case v of None \<Rightarrow> None | Some x \<Rightarrow> if x = 0 then None else Some x)"

definition str_or_null :: "string option \<Rightarrow> string option" where
  "str_or_null v = (case v of None \<Rightarrow> None | Some x \<Rightarrow> if x = [] then None else Some x)"

definition num_or_zero :: "int option \<Rightarrow> int" where
  "num_or_zero v = (case v of None \<Rightarrow> 0 | Some x \<Rightarrow> if x = 0 then 0 else x)"

section \<open>Rating aggregator (RecipeService.calculateAverageRating)\<close>

datatype RatingKey = K_nutrition | K_flavor | K_difficulty

fun field_of :: "RatingKey \<Rightarrow> RecipeRating \<Rightarrow> int option" where
  "field_of K_nutrition r = rr_nutrition r"
| "field_of K_flavor r = rr_flavor r"
| "field_of K_difficulty r = rr_difficulty r"

text \<open>
  \<^verbatim>\<open>validRatings = ratings.filter((r) => r[field] != null);
  if (validRatings.length === 0) return 0;
  sum = validRatings.reduce((acc, rating) => acc + (rating[field] || 0), 0);
  return sum / validRatings.length;\<close>
  The quotient of two JavaScript numbers is taken as the exact rational.
\<close>

definition calculateAverageRating :: "RecipeRating list \<Rightarrow> RatingKey \<Rightarrow> rat" where
  "calculateAverageRating ratings field =
     (let validRatings = filter (\<lambda>r. field_of field r \<noteq> None) ratings in
      if length validRatings = 0 then 0
      else of_int (foldl (\<lambda>acc rating. acc + num_or_zero (field_of field rating)) 0 validRatings)
             / of_nat (length validRatings))"

record AverageRatings =
  ar_nutrition :: rat
  ar_flavor :: rat
  ar_difficulty :: rat

definition averageRatings :: "RecipeRating list \<Rightarrow> AverageRatings" where
  "averageRatings ratings =
     \<lparr> ar_nutrition = calculateAverageRating ratings K_nutrition,
       ar_flavor = calculateAverageRating ratings K_flavor,
       ar_difficulty = calculateAverageRating ratings K_difficulty \<rparr>"

text \<open>The arithmetic mean of a list of integers, 0 for the empty list.\<close>

definition mean :: "int list \<Rightarrow> rat" where
  "mean vs = (if vs = [] then 0 else of_int (sum_list vs) / of_nat (length vs))"

text \<open>The values of one field that are present, in row order.\<close>

definition present :: "RatingKey \<Rightarrow> RecipeRating list \<Rightarrow> int list" where
  "present field ratings = List.map_filter (field_of field) ratings"


section \<open>The store: rows, keys and constraints\<close>

text \<open>A fresh uuid: the next id of the counter, which then advances.\<close>

definition uuid :: "store \<Rightarrow> nat \<times> store" where
  "uuid s = (nextId s, s\<lparr>nextId := Suc (nextId s)\<rparr>)"

definition recipe_exists :: "store \<Rightarrow> nat \<Rightarrow> bool" where
  "recipe_exists s rid = list_ex (\<lambda>r. r_id r = rid) (Recipe_tbl s)"

definition item_exists :: "store \<Rightarrow> string \<Rightarrow> bool" where
  "item_exists s iid = list_ex (\<lambda>i. i_id i = iid) (Item_tbl s)"

definition ingredients_of :: "store \<Rightarrow> nat \<Rightarrow> RecipeIngredient list" where
  "ingredients_of s rid = filter (\<lambda>i. ri_recipeId i = rid) (RecipeIngredient_tbl s)"

definition ratings_of :: "store \<Rightarrow> nat \<Rightarrow> RecipeRating list" where
  "ratings_of s rid = filter (\<lambda>g. rr_recipeId g = rid) (RecipeRating_tbl s)"

definition item_name :: "store \<Rightarrow> string \<Rightarrow> string option" where
  "item_name s iid = map_option i_name (find (\<lambda>i. i_id i = iid) (Item_tbl s))"

text \<open>The rating rows of one (recipe, user) pair: the key of \<open>@@unique([recipeId, userId])\<close>.\<close>

definition ratings_for :: "store \<Rightarrow> nat \<Rightarrow> string \<Rightarrow> RecipeRating list" where
  "ratings_for s rid uid =
     filter (\<lambda>g. rr_recipeId g = rid \<and> rr_userId g = uid) (RecipeRating_tbl s)"

section \<open>Inputs (types.ts)\<close>

record IngredientInput =
  ii_itemId :: string
  ii_quantity :: rat
  ii_unit :: string
  ii_notes :: "string option"

record CreateRecipeInput =
  c_name :: string
  c_description :: "string option"
  c_instructions :: string
  c_prepTime :: int
  c_cookTime :: int
  c_servings :: int
  c_difficulty :: "Difficulty option"
  c_ingredients :: "IngredientInput list"

record UpdateRecipeInput =
  u_name :: "string option"
  u_description :: "string option"
  u_instructions :: "string option"
  u_prepTime :: "int option"
  u_cookTime :: "int option"
  u_servings :: "int option"
  u_difficulty :: "Difficulty option"
  u_ingredients :: "IngredientInput list option"

record RateRecipeInput =
  rate_nutrition :: "int option"
  rate_flavor :: "int option"
  rate_difficulty :: "int option"
  rate_comment :: "string option"

record RecipeFilters =
  f_name :: "string option"
  f_difficulty :: "Difficulty option"
  f_maxPrepTime :: "int option"
  f_maxCookTime :: "int option"
  f_minRating :: "rat option"
  f_ingredient :: "string option"

section \<open>CustomPrismaClient (prisma/client.ts): raw SQL\<close>

subsection \<open>rateRecipe\<close>

text \<open>
  The update branch collects one \<open>SET\<close> clause per entry of the payload whose value is not
  \<open>undefined\<close>, and joins them; \<open>Prisma.join\<close> throws on an empty array, before any
  statement runs. The \<open>UPDATE\<close> writes every row of the pair. The insert branch binds
  \<open>data.field || null\<close> for each field and calls \<open>uuid_generate_v4()\<close> for the id: the
  statement fails where the database does not define the function, and fails on the
  foreign key when the recipe does not exist.
\<close>

datatype RatingSet =
  Set_nutrition int | Set_flavor int | Set_difficulty int | Set_comment string

definition rating_setClauses :: "RateRecipeInput \<Rightarrow> RatingSet list" where
  "rating_setClauses data =
     List.map_filter id
       [map_option Set_nutrition (rate_nutrition data),
        map_option Set_flavor (rate_flavor data),
        map_option Set_difficulty (rate_difficulty data),
        map_option Set_comment (rate_comment data)]"

fun apply_set :: "RecipeRating \<Rightarrow> RatingSet \<Rightarrow> RecipeRating" where
  "apply_set g (Set_nutrition v) = g\<lparr>rr_nutrition := Some v\<rparr>"
| "apply_set g (Set_flavor v) = g\<lparr>rr_flavor := Some v\<rparr>"
| "apply_set g (Set_difficulty v) = g\<lparr>rr_difficulty := Some v\<rparr>"
| "apply_set g (Set_comment v) = g\<lparr>rr_comment := Some v\<rparr>"

definition rateRecipe_insert_values ::
  "nat \<Rightarrow> nat \<Rightarrow> nat \<Rightarrow> string \<Rightarrow> RateRecipeInput \<Rightarrow> RecipeRating" where
  "rateRecipe_insert_values newId now recipeId userId data =
     \<lparr> rr_id = newId, rr_recipeId = recipeId, rr_userId = userId,
       rr_nutrition = num_or_null (rate_nutrition data),
       rr_flavor = num_or_null (rate_flavor data),
       rr_difficulty = num_or_null (rate_difficulty data),
       rr_comment = str_or_null (rate_comment data),
       rr_createdAt = now, rr_updatedAt = now \<rparr>"

definition CustomPrismaClient_rateRecipe ::
  "nat \<Rightarrow> store \<Rightarrow> nat \<Rightarrow> string \<Rightarrow> RateRecipeInput \<Rightarrow> (error + unit) \<times> store" where
  "CustomPrismaClient_rateRecipe now s recipeId userId data =
     (let existingRating = take 1 (ratings_for s recipeId userId) in
      if length existingRating > 0 then
        (let setClauses = rating_setClauses data in
         if setClauses = [] then (Inl JoinTypeError, s)
         else (Inr (),
               s\<lparr>RecipeRating_tbl :=
                   map (\<lambda>g. if rr_recipeId g = recipeId \<and> rr_userId g = userId
                              then (foldl apply_set g setClauses)\<lparr>rr_updatedAt := now\<rparr>
                              else g)
                       (RecipeRating_tbl s)\<rparr>))
      else if \<not> db_uuid_generate_v4 s then (Inl NoSuchFunction, s)
      else if \<not> recipe_exists s recipeId then (Inl ForeignKeyViolation, s)
      else
        (let (newId, s') = uuid s in
         (Inr (),
          s'\<lparr>RecipeRating_tbl := RecipeRating_tbl s' @
              [rateRecipe_insert_values newId now recipeId userId data]\<rparr>)))"

subsection \<open>incrementUsageCount\<close>

text \<open>One \<open>UPDATE ... WHERE id = ?\<close>: it writes the rows it finds and never throws.\<close>

definition CustomPrismaClient_incrementUsageCount ::
  "nat \<Rightarrow> store \<Rightarrow> nat \<Rightarrow> (error + unit) \<times> store" where
  "CustomPrismaClient_incrementUsageCount now s rid =
     (Inr (),
      s\<lparr>Recipe_tbl :=
          map (\<lambda>r. if r_id r = rid
                     then r\<lparr>r_usageCount := r_usageCount r + 1, r_updatedAt := now\<rparr>
                     else r)
              (Recipe_tbl s)\<rparr>)"

subsection \<open>countRecipes\<close>

text \<open>
  The rating columns are Int, so \<open>(COALESCE(..) + COALESCE(..) + COALESCE(..)) / 3\<close> is
  SQL's integer division, which truncates towards zero. \<open>avg\<close> over no row is NULL, and
  a comparison with NULL selects nothing. Each condition is added under JavaScript's
  \<open>if (where?.field)\<close>.
\<close>

record CountWhere =
  cw_userId :: "string option"
  cw_familyId :: "string option"
  cw_difficulty :: "Difficulty option"
  cw_minRating :: "rat option"

definition sql_int_div :: "int \<Rightarrow> int \<Rightarrow> int" where
  "sql_int_div a b = (if 0 \<le> a then a div b else - ((- a) div b))"

definition coalesce :: "int option \<Rightarrow> int \<Rightarrow> int" where
  "coalesce v d = (case v of None \<Rightarrow> d | Some x \<Rightarrow> x)"

definition sql_avg :: "rat list \<Rightarrow> rat option" where
  "sql_avg vs = (if vs = [] then None else Some (sum_list vs / of_nat (length vs)))"

definition row_score :: "RecipeRating \<Rightarrow> int" where
  "row_score g =
     sql_int_div (coalesce (rr_nutrition g) 0 + coalesce (rr_flavor g) 0
                    + coalesce (rr_difficulty g) 0) 3"

definition minRating_condition :: "store \<Rightarrow> rat \<Rightarrow> Recipe \<Rightarrow> bool" where
  "minRating_condition s m r =
     (case sql_avg (map (\<lambda>g. of_int (row_score g)) (ratings_of s (r_id r))) of
        None \<Rightarrow> False
      | Some a \<Rightarrow> m \<le> a)"

definition count_conditions :: "store \<Rightarrow> CountWhere option \<Rightarrow> (Recipe \<Rightarrow> bool) list" where
  "count_conditions s wh =
     (case wh of
        None \<Rightarrow> []
      | Some w \<Rightarrow>
          (case str_or_null (cw_userId w) of
             None \<Rightarrow> [] | Some u \<Rightarrow> [\<lambda>r. r_userId r = u]) @
          (case str_or_null (cw_familyId w) of
             None \<Rightarrow> [] | Some f \<Rightarrow> [\<lambda>r. r_familyId r = f]) @
          (case cw_difficulty w of
             None \<Rightarrow> [] | Some d \<Rightarrow> [\<lambda>r. r_difficulty r = d]) @
          (case num_or_null (cw_minRating w) of
             None \<Rightarrow> [] | Some m \<Rightarrow> [minRating_condition s m]))"

definition CustomPrismaClient_countRecipes :: "store \<Rightarrow> CountWhere option \<Rightarrow> nat" where
  "CustomPrismaClient_countRecipes s wh =
     length (filter (\<lambda>r. list_all (\<lambda>c. c r) (count_conditions s wh)) (Recipe_tbl s))"

section \<open>CustomPrismaClient: reads and transactional writes\<close>

subsection \<open>findRecipeById\<close>

text \<open>
  The query joins the recipe with its ingredient lines and with its ratings (both
  \<open>LEFT JOIN\<close>), groups by the recipe and aggregates over the joined rows: every ingredient
  is paired with every rating, and a side with no row contributes one NULL. With
  \<open>includeDetails\<close> the two JSON arrays are parsed and their NULL entries dropped; without
  it they stay unparsed strings, which no caller reads (\<open>res_details = None\<close>).
\<close>

record IngredientJson =
  ij_id :: nat
  ij_itemId :: string
  ij_quantity :: rat
  ij_unit :: string
  ij_notes :: "string option"
  ij_item_name :: "string option"

record RatingJson =
  rj_userId :: string
  rj_nutrition :: "int option"
  rj_flavor :: "int option"
  rj_difficulty :: "int option"
  rj_comment :: "string option"

record RecipeDetails =
  det_ingredients :: "IngredientJson list"
  det_ratings :: "RatingJson list"
  det_averageRatings :: "rat option \<times> rat option \<times> rat option"

record RecipeResult =
  res_row :: Recipe
  res_details :: "RecipeDetails option"

definition left_join :: "'a list \<Rightarrow> 'a option list" where
  "left_join xs = (if xs = [] then [None] else map Some xs)"

definition joined_rows :: "store \<Rightarrow> nat \<Rightarrow> (RecipeIngredient option \<times> RecipeRating option) list" where
  "joined_rows s rid = List.product (left_join (ingredients_of s rid)) (left_join (ratings_of s rid))"

definition ingredient_json :: "store \<Rightarrow> RecipeIngredient \<Rightarrow> IngredientJson" where
  "ingredient_json s i =
     \<lparr> ij_id = ri_id i, ij_itemId = ri_itemId i, ij_quantity = ri_quantity i,
       ij_unit = ri_unit i, ij_notes = ri_notes i, ij_item_name = item_name s (ri_itemId i) \<rparr>"

definition rating_json :: "RecipeRating \<Rightarrow> RatingJson" where
  "rating_json g =
     \<lparr> rj_userId = rr_userId g, rj_nutrition = rr_nutrition g, rj_flavor = rr_flavor g,
       rj_difficulty = rr_difficulty g, rj_comment = rr_comment g \<rparr>"

definition avg_column ::
  "(RecipeRating \<Rightarrow> int option) \<Rightarrow> (RecipeIngredient option \<times> RecipeRating option) list
     \<Rightarrow> rat option" where
  "avg_column col rows =
     sql_avg (map of_int (List.map_filter (\<lambda>row. Option.bind (snd row) col) rows))"

definition findRecipeById :: "store \<Rightarrow> nat \<Rightarrow> bool \<Rightarrow> RecipeResult option" where
  "findRecipeById s rid includeDetails =
     (case find (\<lambda>r. r_id r = rid) (Recipe_tbl s) of
        None \<Rightarrow> None
      | Some r \<Rightarrow>
          (let rows = joined_rows s rid in
           Some \<lparr> res_row = r,
                  res_details =
                    (if includeDetails
                     then Some \<lparr> det_ingredients = map (ingredient_json s) (List.map_filter fst rows),
                                 det_ratings = map rating_json (List.map_filter snd rows),
                                 det_averageRatings =
                                   (avg_column rr_nutrition rows, avg_column rr_flavor rows,
                                    avg_column rr_difficulty rows) \<rparr>
                     else None) \<rparr>))"

section \<open>Sequencing, transactions and row writes\<close>

text \<open>
  An operation takes the store and returns its result, or the error it threw, with the
  store it leaves. \<open>then_do\<close> is \<open>await\<close> followed by the rest of the function: an error
  ends the function with the store as it is at that point. \<open>transaction\<close> is
  \<open>$transaction\<close> (and any single statement): an error inside discards every write of
  the body.
\<close>

definition then_do ::
  "(error + 'a) \<times> store \<Rightarrow> ('a \<Rightarrow> store \<Rightarrow> (error + 'b) \<times> store) \<Rightarrow> (error + 'b) \<times> store" where
  "then_do m k = (case m of (Inl e, s) \<Rightarrow> (Inl e, s) | (Inr v, s) \<Rightarrow> k v s)"

definition transaction ::
  "(store \<Rightarrow> (error + 'a) \<times> store) \<Rightarrow> store \<Rightarrow> (error + 'a) \<times> store" where
  "transaction body s = (case body s of (Inl e, _) \<Rightarrow> (Inl e, s) | (Inr v, s') \<Rightarrow> (Inr v, s'))"

text \<open>
  One ingredient row written with a client-generated id: both foreign keys (recipeId to
  Recipe, itemId to Item) must resolve.
\<close>

definition insert_ingredient ::
  "nat \<Rightarrow> nat \<Rightarrow> IngredientInput \<Rightarrow> store \<Rightarrow> (error + unit) \<times> store" where
  "insert_ingredient now rid ing s =
     (if recipe_exists s rid \<and> item_exists s (ii_itemId ing)
      then
        (let (newId, s') = uuid s in
         (Inr (),
          s'\<lparr>RecipeIngredient_tbl := RecipeIngredient_tbl s' @
              [\<lparr> ri_id = newId, ri_recipeId = rid, ri_itemId = ii_itemId ing,
                 ri_quantity = ii_quantity ing, ri_unit = ii_unit ing,
                 ri_notes = ii_notes ing, ri_createdAt = now, ri_updatedAt = now \<rparr>]\<rparr>))
      else (Inl ForeignKeyViolation, s))"

fun insert_ingredients ::
  "nat \<Rightarrow> nat \<Rightarrow> IngredientInput list \<Rightarrow> store \<Rightarrow> (error + unit) \<times> store" where
  "insert_ingredients now rid [] s = (Inr (), s)"
| "insert_ingredients now rid (ing # rest) s =
     then_do (insert_ingredient now rid ing s) (\<lambda>_ s'. insert_ingredients now rid rest s')"

text \<open>
  The same \<open>INSERT\<close> as the raw statement of prisma/client.ts, whose id is
  \<open>uuid_generate_v4()\<close>: it fails where the database does not define the function.
\<close>

definition raw_insert_ingredient ::
  "nat \<Rightarrow> nat \<Rightarrow> IngredientInput \<Rightarrow> store \<Rightarrow> (error + unit) \<times> store" where
  "raw_insert_ingredient now rid ing s =
     (if db_uuid_generate_v4 s then insert_ingredient now rid ing s
      else (Inl NoSuchFunction, s))"

fun raw_insert_ingredients ::
  "nat \<Rightarrow> nat \<Rightarrow> IngredientInput list \<Rightarrow> store \<Rightarrow> (error + unit) \<times> store" where
  "raw_insert_ingredients now rid [] s = (Inr (), s)"
| "raw_insert_ingredients now rid (ing # rest) s =
     then_do (raw_insert_ingredient now rid ing s)
       (\<lambda>_ s'. raw_insert_ingredients now rid rest s')"

definition delete_ingredients :: "store \<Rightarrow> nat \<Rightarrow> store" where
  "delete_ingredients s rid =
     s\<lparr>RecipeIngredient_tbl := filter (\<lambda>i. ri_recipeId i \<noteq> rid) (RecipeIngredient_tbl s)\<rparr>"

text \<open>\<open>DELETE FROM "Recipe"\<close>, with \<open>onDelete: Cascade\<close> on both child tables.\<close>

definition delete_cascade :: "store \<Rightarrow> nat \<Rightarrow> store" where
  "delete_cascade s rid =
     s\<lparr>Recipe_tbl := filter (\<lambda>r. r_id r \<noteq> rid) (Recipe_tbl s),
       RecipeIngredient_tbl := filter (\<lambda>i. ri_recipeId i \<noteq> rid) (RecipeIngredient_tbl s),
       RecipeRating_tbl := filter (\<lambda>g. rr_recipeId g \<noteq> rid) (RecipeRating_tbl s)\<rparr>"

text \<open>
  The \<open>SET\<close> clauses of an update: one per field of the payload that is not \<open>undefined\<close>
  (the ingredient list is not a column).
\<close>

definition recipe_setClauses :: "UpdateRecipeInput \<Rightarrow> (Recipe \<Rightarrow> Recipe) list" where
  "recipe_setClauses data =
     List.map_filter id
       [map_option (\<lambda>v r. r\<lparr>r_name := v\<rparr>) (u_name data),
        map_option (\<lambda>v r. r\<lparr>r_description := Some v\<rparr>) (u_description data),
        map_option (\<lambda>v r. r\<lparr>r_instructions := v\<rparr>) (u_instructions data),
        map_option (\<lambda>v r. r\<lparr>r_prepTime := v\<rparr>) (u_prepTime data),
        map_option (\<lambda>v r. r\<lparr>r_cookTime := v\<rparr>) (u_cookTime data),
        map_option (\<lambda>v r. r\<lparr>r_servings := v\<rparr>) (u_servings data),
        map_option (\<lambda>v r. r\<lparr>r_difficulty := v\<rparr>) (u_difficulty data)]"

definition apply_sets :: "(Recipe \<Rightarrow> Recipe) list \<Rightarrow> Recipe \<Rightarrow> Recipe" where
  "apply_sets cs r = foldl (\<lambda>acc c. c acc) r cs"

section \<open>The Prisma Client delegates that RecipeService calls\<close>

text \<open>
  The generated delegates \<open>db.recipe\<close>, \<open>db.recipeIngredient\<close> and \<open>db.recipeRating\<close>
  are not code of this repository; they are modelled from the schema of the repository:
  a field left out of \<open>create\<close> takes its \<open>@default\<close>, a field left out of \<open>update\<close> keeps
  its value, \<open>update\<close> and \<open>delete\<close> of a missing record throw P2025, and every call is one
  atomic statement.
\<close>

definition recipe_findUnique :: "store \<Rightarrow> nat \<Rightarrow> Recipe option" where
  "recipe_findUnique s rid = find (\<lambda>r. r_id r = rid) (Recipe_tbl s)"

record RecipeCreateData =
  cd_name :: string
  cd_description :: "string option"
  cd_instructions :: string
  cd_prepTime :: int
  cd_cookTime :: int
  cd_servings :: int
  cd_difficulty :: "Difficulty option"
  cd_usageCount :: "int option"
  cd_userId :: string
  cd_familyId :: string
  cd_ingredients :: "IngredientInput list"

definition recipe_create ::
  "nat \<Rightarrow> RecipeCreateData \<Rightarrow> store \<Rightarrow> (error + Recipe) \<times> store" where
  "recipe_create now d =
     transaction (\<lambda>s.
       let (newId, s1) = uuid s;
           row = \<lparr> r_id = newId, r_name = cd_name d, r_description = cd_description d,
                   r_instructions = cd_instructions d, r_prepTime = cd_prepTime d,
                   r_cookTime = cd_cookTime d, r_servings = cd_servings d,
                   r_difficulty = (case cd_difficulty d of None \<Rightarrow> MEDIUM | Some x \<Rightarrow> x),
                   r_usageCount = (case cd_usageCount d of None \<Rightarrow> 0 | Some n \<Rightarrow> n),
                   r_userId = cd_userId d, r_familyId = cd_familyId d,
                   r_createdAt = now, r_updatedAt = now \<rparr>;
           s2 = s1\<lparr>Recipe_tbl := Recipe_tbl s1 @ [row]\<rparr>
       in then_do (insert_ingredients now newId (cd_ingredients d) s2) (\<lambda>_ s3. (Inr row, s3)))"

definition recipeIngredient_createMany ::
  "nat \<Rightarrow> nat \<Rightarrow> IngredientInput list \<Rightarrow> store \<Rightarrow> (error + unit) \<times> store" where
  "recipeIngredient_createMany now rid data = transaction (insert_ingredients now rid data)"

definition recipe_update ::
  "nat \<Rightarrow> nat \<Rightarrow> (Recipe \<Rightarrow> Recipe) \<Rightarrow> store \<Rightarrow> (error + Recipe) \<times> store" where
  "recipe_update now rid f s =
     (case recipe_findUnique s rid of
        None \<Rightarrow> (Inl RecordNotFound, s)
      | Some r \<Rightarrow>
          (Inr ((f r)\<lparr>r_updatedAt := now\<rparr>),
           s\<lparr>Recipe_tbl :=
               map (\<lambda>x. if r_id x = rid then (f x)\<lparr>r_updatedAt := now\<rparr> else x)
                   (Recipe_tbl s)\<rparr>))"

definition recipe_delete :: "nat \<Rightarrow> store \<Rightarrow> (error + Recipe) \<times> store" where
  "recipe_delete rid s =
     (case recipe_findUnique s rid of
        None \<Rightarrow> (Inl RecordNotFound, s)
      | Some r \<Rightarrow> (Inr r, delete_cascade s rid))"

text \<open>
  \<open>upsert\<close> on the unique key (recipeId, userId). The three score columns are declared
  \<open>Int? @default(0)\<close>, so a score left out of \<open>create\<close> is stored as 0.
\<close>

definition score_default :: "int option \<Rightarrow> int option" where
  "score_default v = (case v of None \<Rightarrow> Some 0 | Some x \<Rightarrow> Some x)"

definition recipeRating_upsert ::
  "nat \<Rightarrow> nat \<Rightarrow> string \<Rightarrow> RateRecipeInput \<Rightarrow> RateRecipeInput \<Rightarrow> store
     \<Rightarrow> (error + unit) \<times> store" where
  "recipeRating_upsert now rid uid upd cre s =
     (if ratings_for s rid uid \<noteq> [] then
        (Inr (),
         s\<lparr>RecipeRating_tbl :=
             map (\<lambda>g. if rr_recipeId g = rid \<and> rr_userId g = uid
                        then (foldl apply_set g (rating_setClauses upd))\<lparr>rr_updatedAt := now\<rparr>
                        else g)
                 (RecipeRating_tbl s)\<rparr>)
      else if \<not> recipe_exists s rid then (Inl ForeignKeyViolation, s)
      else
        (let (newId, s') = uuid s in
         (Inr (),
          s'\<lparr>RecipeRating_tbl := RecipeRating_tbl s' @
              [\<lparr> rr_id = newId, rr_recipeId = rid, rr_userId = uid,
                 rr_nutrition = score_default (rate_nutrition cre),
                 rr_flavor = score_default (rate_flavor cre),
                 rr_difficulty = score_default (rate_difficulty cre),
                 rr_comment = rate_comment cre,
                 rr_createdAt = now, rr_updatedAt = now \<rparr>]\<rparr>)))"

text \<open>
  \<open>findMany\<close> with the \<open>where\<close> object that listRecipes builds and its \<open>include\<close>: the
  recipe, its ingredient lines each with the name of its item, and its ratings. The
  substring test of the database (\<open>contains\<close>) is a parameter.
\<close>

record RecipeWhere =
  w_familyId :: string
  w_name :: "string option"
  w_difficulty :: "Difficulty option"
  w_prepTime :: "int option"
  w_cookTime :: "int option"
  w_ingredients :: "string option"

record RecipeWithDetails =
  wd_recipe :: Recipe
  wd_ingredients :: "(RecipeIngredient \<times> string option) list"
  wd_ratings :: "RecipeRating list"
  wd_averageRatings :: "AverageRatings option"

definition recipe_matches ::
  "(string \<Rightarrow> string \<Rightarrow> bool) \<Rightarrow> store \<Rightarrow> RecipeWhere \<Rightarrow> Recipe \<Rightarrow> bool" where
  "recipe_matches contains s w r =
     (r_familyId r = w_familyId w \<and>
      (case w_name w of None \<Rightarrow> True | Some n \<Rightarrow> contains (r_name r) n) \<and>
      (case w_difficulty w of None \<Rightarrow> True | Some d \<Rightarrow> r_difficulty r = d) \<and>
      (case w_prepTime w of None \<Rightarrow> True | Some t \<Rightarrow> r_prepTime r \<le> t) \<and>
      (case w_cookTime w of None \<Rightarrow> True | Some t \<Rightarrow> r_cookTime r \<le> t) \<and>
      (case w_ingredients w of
         None \<Rightarrow> True
       | Some n \<Rightarrow>
           list_ex (\<lambda>i. case item_name s (ri_itemId i) of
                           None \<Rightarrow> False | Some nm \<Rightarrow> contains nm n)
                   (ingredients_of s (r_id r))))"

definition with_includes :: "store \<Rightarrow> Recipe \<Rightarrow> RecipeWithDetails" where
  "with_includes s r =
     \<lparr> wd_recipe = r,
       wd_ingredients = map (\<lambda>i. (i, item_name s (ri_itemId i))) (ingredients_of s (r_id r)),
       wd_ratings = ratings_of s (r_id r),
       wd_averageRatings = None \<rparr>"

definition recipe_findMany ::
  "(string \<Rightarrow> string \<Rightarrow> bool) \<Rightarrow> store \<Rightarrow> RecipeWhere \<Rightarrow> RecipeWithDetails list" where
  "recipe_findMany contains s w =
     map (with_includes s) (filter (recipe_matches contains s w) (Recipe_tbl s))"

section \<open>RecipeService\<close>

definition RecipeService_createRecipe ::
  "nat \<Rightarrow> store \<Rightarrow> string \<Rightarrow> string \<Rightarrow> CreateRecipeInput
     \<Rightarrow> (error + Recipe \<times> RecipeIngredient list) \<times> store" where
  "RecipeService_createRecipe now s userId familyId input =
     then_do
       (recipe_create now
          \<lparr> cd_name = c_name input, cd_description = c_description input,
            cd_instructions = c_instructions input, cd_prepTime = c_prepTime input,
            cd_cookTime = c_cookTime input, cd_servings = c_servings input,
            cd_difficulty = c_difficulty input, cd_usageCount = None,
            cd_userId = userId, cd_familyId = familyId, cd_ingredients = [] \<rparr> s)
       (\<lambda>created s1.
          then_do
            (if length (c_ingredients input) > 0
             then recipeIngredient_createMany now (r_id created) (c_ingredients input) s1
             else (Inr (), s1))
            (\<lambda>_ s2.
               case recipe_findUnique s2 (r_id created) of
                 None \<Rightarrow> (Inl (Error ''Failed to create recipe''), s2)
               | Some recipe \<Rightarrow> (Inr (recipe, ingredients_of s2 (r_id created)), s2)))"

definition RecipeService_updateRecipe ::
  "nat \<Rightarrow> store \<Rightarrow> nat \<Rightarrow> string \<Rightarrow> UpdateRecipeInput
     \<Rightarrow> (error + Recipe \<times> RecipeIngredient list) \<times> store" where
  "RecipeService_updateRecipe now s recipeId userId input =
     (case recipe_findUnique s recipeId of
        None \<Rightarrow> (Inl (Error ''Recipe not found''), s)
      | Some existingRecipe \<Rightarrow>
          if r_userId existingRecipe \<noteq> userId
          then (Inl (Error ''Not authorized to update this recipe''), s)
          else
            then_do
              (case u_ingredients input of
                 None \<Rightarrow> (Inr (), s)
               | Some ingredients \<Rightarrow>
                   recipeIngredient_createMany now recipeId ingredients
                     (delete_ingredients s recipeId))
              (\<lambda>_ s1.
                 then_do (recipe_update now recipeId (apply_sets (recipe_setClauses input)) s1)
                   (\<lambda>updated s2. (Inr (updated, ingredients_of s2 recipeId), s2))))"

definition RecipeService_deleteRecipe ::
  "store \<Rightarrow> nat \<Rightarrow> string \<Rightarrow> (error + unit) \<times> store" where
  "RecipeService_deleteRecipe s recipeId userId =
     (case recipe_findUnique s recipeId of
        None \<Rightarrow> (Inl (Error ''Recipe not found''), s)
      | Some existingRecipe \<Rightarrow>
          if r_userId existingRecipe \<noteq> userId
          then (Inl (Error ''Not authorized to delete this recipe''), s)
          else then_do (recipe_delete recipeId s) (\<lambda>_ s1. (Inr (), s1)))"

definition add_averages :: "RecipeWithDetails \<Rightarrow> RecipeWithDetails" where
  "add_averages recipe = recipe\<lparr>wd_averageRatings := Some (averageRatings (wd_ratings recipe))\<rparr>"

definition RecipeService_getRecipe :: "store \<Rightarrow> nat \<Rightarrow> RecipeWithDetails option" where
  "RecipeService_getRecipe s recipeId =
     (case recipe_findUnique s recipeId of
        None \<Rightarrow> None
      | Some recipe \<Rightarrow> Some (add_averages (with_includes s recipe)))"

definition listRecipes_where :: "string \<Rightarrow> RecipeFilters option \<Rightarrow> RecipeWhere" where
  "listRecipes_where familyId filters =
     \<lparr> w_familyId = familyId,
       w_name = (case filters of None \<Rightarrow> None | Some f \<Rightarrow> str_or_null (f_name f)),
       w_difficulty = (case filters of None \<Rightarrow> None | Some f \<Rightarrow> f_difficulty f),
       w_prepTime = (case filters of None \<Rightarrow> None | Some f \<Rightarrow> num_or_null (f_maxPrepTime f)),
       w_cookTime = (case filters of None \<Rightarrow> None | Some f \<Rightarrow> num_or_null (f_maxCookTime f)),
       w_ingredients = (case filters of None \<Rightarrow> None | Some f \<Rightarrow> str_or_null (f_ingredient f)) \<rparr>"

definition RecipeService_listRecipes ::
  "(string \<Rightarrow> string \<Rightarrow> bool) \<Rightarrow> store \<Rightarrow> string \<Rightarrow> RecipeFilters option
     \<Rightarrow> RecipeWithDetails list" where
  "RecipeService_listRecipes contains s familyId filters =
     (let wh = listRecipes_where familyId filters;
          recipes = recipe_findMany contains s wh;
          recipesWithRatings = map add_averages recipes
      in case (case filters of None \<Rightarrow> None | Some f \<Rightarrow> num_or_null (f_minRating f)) of
           None \<Rightarrow> recipesWithRatings
         | Some minRating \<Rightarrow>
             filter (\<lambda>recipe.
                       let flavorRating =
                             (case wd_averageRatings recipe of
                                None \<Rightarrow> 0 | Some a \<Rightarrow> ar_flavor a)
                       in minRating \<le> flavorRating)
                    recipesWithRatings)"

definition RecipeService_rateRecipe ::
  "nat \<Rightarrow> store \<Rightarrow> nat \<Rightarrow> string \<Rightarrow> RateRecipeInput \<Rightarrow> (error + unit) \<times> store" where
  "RecipeService_rateRecipe now s recipeId userId input =
     (case recipe_findUnique s recipeId of
        None \<Rightarrow> (Inl (Error ''Recipe not found''), s)
      | Some existingRecipe \<Rightarrow> recipeRating_upsert now recipeId userId input input s)"

definition RecipeService_incrementUsageCount ::
  "nat \<Rightarrow> store \<Rightarrow> nat \<Rightarrow> (error + unit) \<times> store" where
  "RecipeService_incrementUsageCount now s recipeId =
     then_do (recipe_update now recipeId (\<lambda>r. r\<lparr>r_usageCount := r_usageCount r + 1\<rparr>) s)
       (\<lambda>_ s1. (Inr (), s1))"

text \<open>
  cloneRecipe keeps, of the original, what is left after \<open>id\<close>, \<open>userId\<close>, \<open>familyId\<close>,
  \<open>createdAt\<close>, \<open>updatedAt\<close>, \<open>usageCount\<close> and \<open>ingredients\<close> are taken out, and of each
  ingredient what is left after \<open>id\<close>, \<open>recipeId\<close>, \<open>createdAt\<close> and \<open>updatedAt\<close>.
\<close>

definition ingredientData :: "RecipeIngredient \<Rightarrow> IngredientInput" where
  "ingredientData i =
     \<lparr> ii_itemId = ri_itemId i, ii_quantity = ri_quantity i, ii_unit = ri_unit i,
       ii_notes = ri_notes i \<rparr>"


section \<open>CustomPrismaClient: createRecipe, updateRecipe, deleteRecipe\<close>

text \<open>
  createRecipe and updateRecipe run in \<open>$transaction\<close>. An ingredient's optional notes are
  stored as \<open>ingredient.notes || null\<close>, the description as \<open>data.description || null\<close>,
  the difficulty as \<open>data.difficulty || Difficulty.MEDIUM\<close>. Every \<open>INSERT\<close> of the two
  functions calls \<open>uuid_generate_v4()\<close>. The final read of the transaction body is taken
  to see the body's writes.
\<close>

definition notes_or_null :: "IngredientInput \<Rightarrow> IngredientInput" where
  "notes_or_null ing = ing\<lparr>ii_notes := str_or_null (ii_notes ing)\<rparr>"

definition CustomPrismaClient_createRecipe ::
  "nat \<Rightarrow> store \<Rightarrow> string \<Rightarrow> string \<Rightarrow> CreateRecipeInput
     \<Rightarrow> (error + RecipeResult option) \<times> store" where
  "CustomPrismaClient_createRecipe now s userId familyId data =
     transaction (\<lambda>tx.
       if \<not> db_uuid_generate_v4 tx then (Inl NoSuchFunction, tx)
       else
       let (newId, s1) = uuid tx;
           row = \<lparr> r_id = newId, r_name = c_name data,
                   r_description = str_or_null (c_description data),
                   r_instructions = c_instructions data, r_prepTime = c_prepTime data,
                   r_cookTime = c_cookTime data, r_servings = c_servings data,
                   r_difficulty = (case c_difficulty data of None \<Rightarrow> MEDIUM | Some d \<Rightarrow> d),
                   r_usageCount = 0, r_userId = userId, r_familyId = familyId,
                   r_createdAt = now, r_updatedAt = now \<rparr>;
           s2 = s1\<lparr>Recipe_tbl := Recipe_tbl s1 @ [row]\<rparr>
       in then_do (raw_insert_ingredients now newId (map notes_or_null (c_ingredients data)) s2)
            (\<lambda>_ s3. (Inr (findRecipeById s3 newId True), s3))) s"

definition CustomPrismaClient_updateRecipe ::
  "nat \<Rightarrow> store \<Rightarrow> nat \<Rightarrow> UpdateRecipeInput \<Rightarrow> (error + RecipeResult) \<times> store" where
  "CustomPrismaClient_updateRecipe now s rid data =
     transaction (\<lambda>tx.
       let setClauses = recipe_setClauses data;
           s1 = (if length setClauses > 0
                 then tx\<lparr>Recipe_tbl :=
                          map (\<lambda>r. if r_id r = rid
                                     then (apply_sets setClauses r)\<lparr>r_updatedAt := now\<rparr>
                                     else r)
                              (Recipe_tbl tx)\<rparr>
                 else tx)
       in then_do
            (case u_ingredients data of
               None \<Rightarrow> (Inr (), s1)
             | Some ingredients \<Rightarrow>
                 raw_insert_ingredients now rid (map notes_or_null ingredients)
                   (delete_ingredients s1 rid))
            (\<lambda>_ s2.
               case findRecipeById s2 rid True of
                 None \<Rightarrow> (Inl (Error ''Failed to update recipe''), s2)
               | Some recipe \<Rightarrow> (Inr recipe, s2))) s"

definition CustomPrismaClient_deleteRecipe ::
  "store \<Rightarrow> nat \<Rightarrow> (error + RecipeResult) \<times> store" where
  "CustomPrismaClient_deleteRecipe s rid =
     (case findRecipeById s rid False of
        None \<Rightarrow> (Inl (Error ''Recipe not found''), s)
      | Some recipe \<Rightarrow> (Inr recipe, delete_cascade s rid))"

section \<open>RecipeController: updateRecipe and deleteRecipe\<close>

text \<open>
  The handler's \<open>try\<close> block; what it throws goes to \<open>errorResponse\<close> (\<open>Inl\<close>), what it
  computes to \<open>successResponse\<close> (\<open>Inr\<close>). \<open>recipeSchema.partial().parse\<close> accepts a payload
  whose supplied fields satisfy the schema.
\<close>

record UserContext =
  uc_id :: string
  uc_role :: string
  uc_familyId :: string

definition opt_ok :: "('a \<Rightarrow> bool) \<Rightarrow> 'a option \<Rightarrow> bool" where
  "opt_ok P v = (case v of None \<Rightarrow> True | Some x \<Rightarrow> P x)"

definition recipeSchema_partial :: "UpdateRecipeInput \<Rightarrow> bool" where
  "recipeSchema_partial data =
     (opt_ok (\<lambda>n. 1 \<le> length n) (u_name data) \<and>
      opt_ok (\<lambda>n. 1 \<le> length n) (u_instructions data) \<and>
      opt_ok (\<lambda>t. 0 \<le> t) (u_prepTime data) \<and>
      opt_ok (\<lambda>t. 0 \<le> t) (u_cookTime data) \<and>
      opt_ok (\<lambda>n. 1 \<le> n) (u_servings data) \<and>
      opt_ok (\<lambda>is. 1 \<le> length is \<and> list_all (\<lambda>i. 0 \<le> ii_quantity i) is) (u_ingredients data))"

definition RecipeController_updateRecipe ::
  "nat \<Rightarrow> store \<Rightarrow> UserContext \<Rightarrow> nat \<Rightarrow> UpdateRecipeInput \<Rightarrow> (error + RecipeResult) \<times> store" where
  "RecipeController_updateRecipe now s user rid data =
     (case findRecipeById s rid True of
        None \<Rightarrow> (Inl (RecipeError RECIPE_NOT_FOUND), s)
      | Some existingRecipe \<Rightarrow>
          if r_userId (res_row existingRecipe) \<noteq> uc_id user
             \<and> r_familyId (res_row existingRecipe) \<noteq> uc_familyId user
          then (Inl (RecipeError FORBIDDEN), s)
          else if \<not> recipeSchema_partial data then (Inl ZodError, s)
          else CustomPrismaClient_updateRecipe now s rid data)"

definition RecipeController_deleteRecipe ::
  "store \<Rightarrow> UserContext \<Rightarrow> nat \<Rightarrow> (error + unit) \<times> store" where
  "RecipeController_deleteRecipe s user rid =
     (case findRecipeById s rid True of
        None \<Rightarrow> (Inl (RecipeError RECIPE_NOT_FOUND), s)
      | Some recipe \<Rightarrow>
          if r_userId (res_row recipe) \<noteq> uc_id user
             \<and> r_familyId (res_row recipe) \<noteq> uc_familyId user
          then (Inl (RecipeError FORBIDDEN), s)
          else then_do (CustomPrismaClient_deleteRecipe s rid) (\<lambda>_ s1. (Inr (), s1)))"

section \<open>Specification vocabulary and examples\<close>

text \<open>
  A partial update of a rating row: a field the payload supplies takes the payload's
  value, a field it leaves out keeps the value of the row.
\<close>

definition merge_field :: "'a option \<Rightarrow> 'a option \<Rightarrow> 'a option" where
  "merge_field new old = (case new of None \<Rightarrow> old | Some v \<Rightarrow> Some v)"

definition merged_over :: "RateRecipeInput \<Rightarrow> RecipeRating \<Rightarrow> RecipeRating \<Rightarrow> bool" where
  "merged_over p g1 g2 =
     (rr_id g2 = rr_id g1 \<and>
      rr_nutrition g2 = merge_field (rate_nutrition p) (rr_nutrition g1) \<and>
      rr_flavor g2 = merge_field (rate_flavor p) (rr_flavor g1) \<and>
      rr_difficulty g2 = merge_field (rate_difficulty p) (rr_difficulty g1) \<and>
      rr_comment g2 = merge_field (rate_comment p) (rr_comment g1))"

text \<open>One score of a payload, and the payload with that score left out.\<close>

fun payload_field :: "RatingKey \<Rightarrow> RateRecipeInput \<Rightarrow> int option" where
  "payload_field K_nutrition p = rate_nutrition p"
| "payload_field K_flavor p = rate_flavor p"
| "payload_field K_difficulty p = rate_difficulty p"

fun without_field :: "RatingKey \<Rightarrow> RateRecipeInput \<Rightarrow> RateRecipeInput" where
  "without_field K_nutrition p = p\<lparr>rate_nutrition := None\<rparr>"
| "without_field K_flavor p = p\<lparr>rate_flavor := None\<rparr>"
| "without_field K_difficulty p = p\<lparr>rate_difficulty := None\<rparr>"

text \<open>
  Vocabulary of the rating properties: the rating rows of a (recipe, user) pair, the four
  fields of a row that a payload can set, and the store after two submissions in
  sequence through one of the two rateRecipe functions.
\<close>

definition rows_of_pair :: "store \<Rightarrow> nat \<Rightarrow> string \<Rightarrow> RecipeRating list" where
  "rows_of_pair s rid uid =
     filter (\<lambda>g. rr_recipeId g = rid \<and> rr_userId g = uid) (RecipeRating_tbl s)"









text \<open>
  Example data: a family \<open>fam\<close> whose member \<open>alice\<close> owns the recipes; \<open>kitchen\<close> holds one
  recipe and no rating, \<open>pantry\<close> holds the ratings of the specification's example
  (\<open>{flavor: 4}\<close> and \<open>{flavor: 2, nutrition: 5}\<close>) on the first recipe and a second recipe
  with a high nutrition and a low flavor score.
\<close>

definition soup :: Recipe where
  "soup = \<lparr> r_id = 1, r_name = ''Soup'', r_description = None, r_instructions = ''Boil'',
            r_prepTime = 10, r_cookTime = 20, r_servings = 2, r_difficulty = EASY,
            r_usageCount = 0, r_userId = ''alice'', r_familyId = ''fam'',
            r_createdAt = 1, r_updatedAt = 1 \<rparr>"

definition kitchen :: store where
  "kitchen = \<lparr> Recipe_tbl = [soup], RecipeIngredient_tbl = [], RecipeRating_tbl = [],
               Item_tbl = [\<lparr> i_id = ''salt'', i_name = ''Salt'' \<rparr>], nextId = 2, db_uuid_generate_v4 = False \<rparr>"

definition payload :: "int option \<Rightarrow> int option \<Rightarrow> int option \<Rightarrow> RateRecipeInput" where
  "payload n f d = \<lparr> rate_nutrition = n, rate_flavor = f, rate_difficulty = d, rate_comment = None \<rparr>"

definition no_filters :: RecipeFilters where
  "no_filters = \<lparr> f_name = None, f_difficulty = None, f_maxPrepTime = None,
                  f_maxCookTime = None, f_minRating = None, f_ingredient = None \<rparr>"

definition stew :: Recipe where
  "stew = \<lparr> r_id = 2, r_name = ''Stew'', r_description = Some ''Slow'', r_instructions = ''Simmer'',
            r_prepTime = 15, r_cookTime = 90, r_servings = 4, r_difficulty = MEDIUM,
            r_usageCount = 3, r_userId = ''alice'', r_familyId = ''fam'',
            r_createdAt = 2, r_updatedAt = 2 \<rparr>"

definition rated :: "nat \<Rightarrow> nat \<Rightarrow> string \<Rightarrow> int option \<Rightarrow> int option \<Rightarrow> int option \<Rightarrow> RecipeRating" where
  "rated i rid u n f d =
     \<lparr> rr_id = i, rr_recipeId = rid, rr_userId = u, rr_nutrition = n, rr_flavor = f,
       rr_difficulty = d, rr_comment = None, rr_createdAt = 3, rr_updatedAt = 3 \<rparr>"

definition pantry :: store where
  "pantry = \<lparr> Recipe_tbl = [soup, stew], RecipeIngredient_tbl = [],
              RecipeRating_tbl = [rated 3 1 ''B'' None (Some 4) None,
                                  rated 4 1 ''C'' (Some 5) (Some 2) None,
                                  rated 5 2 ''B'' (Some 5) (Some 2) (Some 5)],
              Item_tbl = [\<lparr> i_id = ''salt'', i_name = ''Salt'' \<rparr>], nextId = 6, db_uuid_generate_v4 = False \<rparr>"

text \<open>
  The joint average of the specification's count: per rating row the mean of the three
  scores with null as zero, then the mean over the rows.
\<close>

definition joint_mean :: "RecipeRating list \<Rightarrow> rat" where
  "joint_mean gs =
     (if gs = [] then 0
      else sum_list (map (\<lambda>g. of_int (coalesce (rr_nutrition g) 0 + coalesce (rr_flavor g) 0
                                        + coalesce (rr_difficulty g) 0) / 3) gs)
             / of_nat (length gs))"

text \<open>A recipe with two rating rows whose score sums, 8 and 10, are not multiples of 3.\<close>

definition larder :: store where
  "larder = \<lparr> Recipe_tbl = [soup], RecipeIngredient_tbl = [],
              RecipeRating_tbl = [rated 2 1 ''B'' (Some 3) (Some 3) (Some 2),
                                  rated 3 1 ''C'' (Some 3) (Some 3) (Some 4)],
              Item_tbl = [\<lparr> i_id = ''salt'', i_name = ''Salt'' \<rparr>], nextId = 4, db_uuid_generate_v4 = False \<rparr>"

definition minRating_only :: "rat \<Rightarrow> CountWhere" where
  "minRating_only m = \<lparr> cw_userId = None, cw_familyId = None, cw_difficulty = None,
                        cw_minRating = Some m \<rparr>"

text \<open>A recipe to create whose second ingredient names an item the store does not have.\<close>

definition broth :: CreateRecipeInput where
  "broth = \<lparr> c_name = ''Broth'', c_description = None, c_instructions = ''Boil bones'',
             c_prepTime = 5, c_cookTime = 120, c_servings = 6, c_difficulty = None,
             c_ingredients = [\<lparr> ii_itemId = ''salt'', ii_quantity = 1, ii_unit = ''tsp'', ii_notes = None \<rparr>,
                              \<lparr> ii_itemId = ''pepper'', ii_quantity = 2, ii_unit = ''tsp'', ii_notes = None \<rparr>] \<rparr>"

definition user_ctx :: "string \<Rightarrow> string \<Rightarrow> UserContext" where
  "user_ctx u f = \<lparr> uc_id = u, uc_role = ''PARENT'', uc_familyId = f \<rparr>"

definition rename :: "string \<Rightarrow> UpdateRecipeInput" where
  "rename n = \<lparr> u_name = Some n, u_description = None, u_instructions = None,
                u_prepTime = None, u_cookTime = None, u_servings = None, u_difficulty = None,
                u_ingredients = None \<rparr>"

text \<open>
  The integrity of a store that the operations keep: every row id came from the
  generator, a child row's recipe id did too, and an ingredient line names an existing
  item (the foreign key).
\<close>

definition ids_issued :: "store \<Rightarrow> bool" where
  "ids_issued s =
     (list_all (\<lambda>r. r_id r < nextId s) (Recipe_tbl s) \<and>
      list_all (\<lambda>i. ri_id i < nextId s \<and> ri_recipeId i < nextId s
                     \<and> item_exists s (ri_itemId i)) (RecipeIngredient_tbl s) \<and>
      list_all (\<lambda>g. rr_recipeId g < nextId s) (RecipeRating_tbl s))"

text \<open>The rows that inserting a list of lines writes, the first with id \<open>n\<close>.\<close>

fun ingredient_rows :: "nat \<Rightarrow> nat \<Rightarrow> nat \<Rightarrow> IngredientInput list \<Rightarrow> RecipeIngredient list" where
  "ingredient_rows now rid n [] = []"
| "ingredient_rows now rid n (ing # rest) =
     \<lparr> ri_id = n, ri_recipeId = rid, ri_itemId = ii_itemId ing, ri_quantity = ii_quantity ing,
       ri_unit = ii_unit ing, ri_notes = ii_notes ing, ri_createdAt = now, ri_updatedAt = now \<rparr>
     # ingredient_rows now rid (Suc n) rest"



text \<open>
  Vocabulary of the listing properties. The mean flavor score of a recipe is taken over its
  rating rows that have a flavor, and is 0 when there is none. A recipe passes the
  filters other than minRating when it is of the family and meets each filter that is
  given; a name or ingredient filter that is the empty string, and a time bound that is
  0, count as not given. The ingredient filter asks for one ingredient line of the recipe
  whose item has a name containing the string.
\<close>

definition flavor_mean :: "store \<Rightarrow> nat \<Rightarrow> rat" where
  "flavor_mean s rid =
     mean (List.map_filter rr_flavor (filter (\<lambda>g. rr_recipeId g = rid) (RecipeRating_tbl s)))"

definition passes_filters ::
  "(string \<Rightarrow> string \<Rightarrow> bool) \<Rightarrow> store \<Rightarrow> string \<Rightarrow> RecipeFilters \<Rightarrow> Recipe \<Rightarrow> bool" where
  "passes_filters contains s fam f r =
     (r_familyId r = fam \<and>
      (case f_name f of None \<Rightarrow> True | Some n \<Rightarrow> n = [] \<or> contains (r_name r) n) \<and>
      (case f_difficulty f of None \<Rightarrow> True | Some d \<Rightarrow> r_difficulty r = d) \<and>
      (case f_maxPrepTime f of None \<Rightarrow> True | Some t \<Rightarrow> t = 0 \<or> r_prepTime r \<le> t) \<and>
      (case f_maxCookTime f of None \<Rightarrow> True | Some t \<Rightarrow> t = 0 \<or> r_cookTime r \<le> t) \<and>
      (case f_ingredient f of
         None \<Rightarrow> True
       | Some n \<Rightarrow>
           n = [] \<or>
           list_ex (\<lambda>i. ri_recipeId i = r_id r \<and>
                          (case find (\<lambda>it. i_id it = ri_itemId i) (Item_tbl s) of
                             None \<Rightarrow> False
                           | Some it \<Rightarrow> contains (i_name it) n))
                   (RecipeIngredient_tbl s)))"

text \<open>An example of the database's substring test: the exact, case-sensitive one.\<close>

fun starts_with :: "string \<Rightarrow> string \<Rightarrow> bool" where
  "starts_with hay [] = True"
| "starts_with [] (c # cs) = False"
| "starts_with (h # hs) (c # cs) = (h = c \<and> starts_with hs cs)"

fun substring :: "string \<Rightarrow> string \<Rightarrow> bool" where
  "substring [] needle = (needle = [])"
| "substring (h # hs) needle = (starts_with (h # hs) needle \<or> substring hs needle)"

section \<open>The aggregator computes per-field means\<close>

lemma foldl_num_or_zero:
  "foldl (\<lambda>acc rating. acc + num_or_zero (f rating)) a rs
     = a + sum_list (List.map_filter f rs)"
  by (induction rs arbitrary: a)
     (auto simp: List.map_filter_simps num_or_zero_def split: option.splits)

lemma map_filter_valid:
  "List.map_filter f (filter (\<lambda>r. f r \<noteq> None) rs) = List.map_filter f rs"
  by (induction rs) (auto simp: List.map_filter_simps split: option.splits)

lemma length_valid:
  "length (filter (\<lambda>r. f r \<noteq> None) rs) = length (List.map_filter f rs)"
  by (induction rs) (auto simp: List.map_filter_simps split: option.splits)

lemma calculateAverageRating_present:
  "calculateAverageRating ratings k = mean (present k ratings)"
proof -
  let ?valid = "filter (\<lambda>r. field_of k r \<noteq> None) ratings"
  have len: "length ?valid = length (present k ratings)"
    unfolding present_def by (rule length_valid)
  have sum: "foldl (\<lambda>acc rating. acc + num_or_zero (field_of k rating)) 0 ?valid
               = sum_list (present k ratings)"
    unfolding present_def foldl_num_or_zero map_filter_valid by simp
  show ?thesis
    unfolding calculateAverageRating_def Let_def len sum mean_def by simp
qed



section \<open>Rating upsert\<close>

lemma apply_set_keys:
  "rr_recipeId (foldl apply_set g cs) = rr_recipeId g \<and>
   rr_userId (foldl apply_set g cs) = rr_userId g \<and>
   rr_id (foldl apply_set g cs) = rr_id g"
proof (induction cs arbitrary: g)
  case Nil
  show ?case by simp
next
  case (Cons c cs)
  show ?case by (cases c) (simp_all add: Cons.IH)
qed

lemma setClauses_merge: "merged_over p g (foldl apply_set g (rating_setClauses p))"
  unfolding merged_over_def rating_setClauses_def merge_field_def
  by (cases "rate_nutrition p"; cases "rate_flavor p"; cases "rate_difficulty p";
      cases "rate_comment p"; simp add: List.map_filter_simps)



lemma filter_map_if:
  assumes "\<And>g. P g \<Longrightarrow> P (f g)"
  shows "filter P (map (\<lambda>g. if P g then f g else g) xs) = map f (filter P xs)"
  using assms by (induction xs) auto

lemma ratings_for_update:
  "ratings_for (s\<lparr>RecipeRating_tbl :=
       map (\<lambda>g. if rr_recipeId g = rid \<and> rr_userId g = uid
                then (foldl apply_set g cs)\<lparr>rr_updatedAt := t\<rparr> else g) (RecipeRating_tbl s)\<rparr>) rid uid
   = map (\<lambda>g. (foldl apply_set g cs)\<lparr>rr_updatedAt := t\<rparr>) (ratings_for s rid uid)"
  unfolding ratings_for_def
  using filter_map_if [of "\<lambda>g. rr_recipeId g = rid \<and> rr_userId g = uid"
         "\<lambda>g. (foldl apply_set g cs)\<lparr>rr_updatedAt := t\<rparr>" "RecipeRating_tbl s"]
  by (simp add: apply_set_keys)




lemma client_rate_keeps_recipes:
  "Recipe_tbl (snd (CustomPrismaClient_rateRecipe t s rid uid p)) = Recipe_tbl s"
  by (simp add: CustomPrismaClient_rateRecipe_def uuid_def Let_def split: prod.splits)


lemma field_merge:
  "merged_over p g1 g2 \<Longrightarrow> field_of k g2 = merge_field (payload_field k p) (field_of k g1)"
  by (cases k) (simp_all add: merged_over_def)

lemma rows_of_pair_ratings_for: "rows_of_pair s rid uid = ratings_for s rid uid"
  by (simp add: rows_of_pair_def ratings_for_def)


text \<open>One submission on a store that holds no row of the pair.\<close>

lemma client_rate_insert:
  assumes "db_uuid_generate_v4 s" and "recipe_exists s rid" and "ratings_for s rid uid = []"
  shows "CustomPrismaClient_rateRecipe t s rid uid p
         = (Inr (), s\<lparr>nextId := Suc (nextId s),
                      RecipeRating_tbl := RecipeRating_tbl s @
                        [rateRecipe_insert_values (nextId s) t rid uid p]\<rparr>)"
  using assms by (simp add: CustomPrismaClient_rateRecipe_def uuid_def)

text \<open>
  On a database that does not define \<open>uuid_generate_v4()\<close>, the first submission for a
  pair fails and stores nothing.
\<close>

lemma client_rate_undefined:
  assumes "\<not> db_uuid_generate_v4 s" and "ratings_for s rid uid = []"
  shows "CustomPrismaClient_rateRecipe t s rid uid p = (Inl NoSuchFunction, s)"
  using assms by (simp add: CustomPrismaClient_rateRecipe_def)


lemma ratings_for_append:
  "ratings_for s rid uid = [] \<Longrightarrow> rr_recipeId g = rid \<Longrightarrow> rr_userId g = uid \<Longrightarrow>
     ratings_for (s\<lparr>nextId := n, RecipeRating_tbl := RecipeRating_tbl s @ [g]\<rparr>) rid uid = [g]"
  by (simp add: ratings_for_def)








text \<open>
  C9. The row that the insert of CustomPrismaClient.rateRecipe binds has null for a score
  supplied as 0, and is the row bound for the payload without that score. So where the
  insert runs (the pair has no row, the recipe exists, the database defines
  \<open>uuid_generate_v4()\<close>) the call succeeds, stores one row with null in that field, is the
  same as the call with the score left out, and adds nothing to the values that field's
  average is taken over. When the pair has a row, the update stores the 0.
\<close>

theorem rateRecipe_insert_zero_is_null:
  assumes "payload_field k p = Some 0"
  shows "field_of k (rateRecipe_insert_values i t rid uid p) = None \<and>
         rateRecipe_insert_values i t rid uid p
           = rateRecipe_insert_values i t rid uid (without_field k p) \<and>
         (db_uuid_generate_v4 s \<and> recipe_exists s rid \<and> rows_of_pair s rid uid = [] \<longrightarrow>
            fst (CustomPrismaClient_rateRecipe t s rid uid p) = Inr () \<and>
            map (field_of k)
              (rows_of_pair (snd (CustomPrismaClient_rateRecipe t s rid uid p)) rid uid) = [None] \<and>
            CustomPrismaClient_rateRecipe t s rid uid p
              = CustomPrismaClient_rateRecipe t s rid uid (without_field k p) \<and>
            present k (filter (\<lambda>g. rr_recipeId g = rid)
                         (RecipeRating_tbl (snd (CustomPrismaClient_rateRecipe t s rid uid p))))
              = present k (filter (\<lambda>g. rr_recipeId g = rid) (RecipeRating_tbl s))) \<and>
         (rows_of_pair s rid uid \<noteq> [] \<longrightarrow>
            map (field_of k)
              (rows_of_pair (snd (CustomPrismaClient_rateRecipe t s rid uid p)) rid uid)
              = map (\<lambda>g. Some 0) (rows_of_pair s rid uid))"
proof (intro conjI impI)
  show null: "field_of k (rateRecipe_insert_values i t rid uid p) = None" for i
    using assms by (cases k) (simp_all add: rateRecipe_insert_values_def num_or_null_def)
  show same: "rateRecipe_insert_values i t rid uid p
           = rateRecipe_insert_values i t rid uid (without_field k p)" for i
    using assms by (cases k) (simp_all add: rateRecipe_insert_values_def num_or_null_def)
  {
    assume h: "db_uuid_generate_v4 s \<and> recipe_exists s rid \<and> rows_of_pair s rid uid = []"
    then have db: "db_uuid_generate_v4 s" and ex: "recipe_exists s rid"
      and none: "ratings_for s rid uid = []"
      by (simp_all add: rows_of_pair_ratings_for)
    note ins = client_rate_insert [OF db ex none]
    show "fst (CustomPrismaClient_rateRecipe t s rid uid p) = Inr ()"
      by (simp add: ins)
    have "ratings_for (snd (CustomPrismaClient_rateRecipe t s rid uid p)) rid uid
            = [rateRecipe_insert_values (nextId s) t rid uid p]"
      unfolding ins snd_conv
      by (rule ratings_for_append [OF none]) (simp_all add: rateRecipe_insert_values_def)
    then show "map (field_of k)
              (rows_of_pair (snd (CustomPrismaClient_rateRecipe t s rid uid p)) rid uid) = [None]"
      by (simp add: rows_of_pair_ratings_for null)
    show "CustomPrismaClient_rateRecipe t s rid uid p
              = CustomPrismaClient_rateRecipe t s rid uid (without_field k p)"
      unfolding ins client_rate_insert [OF db ex none, of t "without_field k p"]
      using same [of "nextId s"] by simp
    show "present k (filter (\<lambda>g. rr_recipeId g = rid)
                         (RecipeRating_tbl (snd (CustomPrismaClient_rateRecipe t s rid uid p))))
              = present k (filter (\<lambda>g. rr_recipeId g = rid) (RecipeRating_tbl s))"
      unfolding ins snd_conv using null [of "nextId s"]
      by (simp add: present_def List.map_filter_def)
  }
  {
    assume "rows_of_pair s rid uid \<noteq> []"
    then have some: "ratings_for s rid uid \<noteq> []"
      by (simp add: rows_of_pair_ratings_for)
    have cs: "rating_setClauses p \<noteq> []"
      using assms
      by (cases k; cases "rate_nutrition p"; cases "rate_flavor p"; cases "rate_difficulty p")
         (simp_all add: rating_setClauses_def List.map_filter_simps)
    have fld: "field_of k ((foldl apply_set g (rating_setClauses p))\<lparr>rr_updatedAt := t\<rparr>) = Some 0"
      for g
    proof -
      have "merged_over p g (foldl apply_set g (rating_setClauses p))"
        by (rule setClauses_merge)
      from field_merge [OF this] have "field_of k (foldl apply_set g (rating_setClauses p))
          = merge_field (payload_field k p) (field_of k g)" .
      with assms show ?thesis
        by (cases k) (simp_all add: merge_field_def)
    qed
    from some cs show "map (field_of k)
              (rows_of_pair (snd (CustomPrismaClient_rateRecipe t s rid uid p)) rid uid)
              = map (\<lambda>g. Some 0) (rows_of_pair s rid uid)"
      by (simp add: rows_of_pair_ratings_for CustomPrismaClient_rateRecipe_def
            ratings_for_update fld)
  }
qed

theorem rateRecipe_insert_zero_is_null_witness:
  "payload_field K_flavor (payload (Some 2) (Some 0) None) = Some 0 \<and>
   field_of K_flavor (rateRecipe_insert_values 2 5 1 ''bob'' (payload (Some 2) (Some 0) None)) = None \<and>
   db_uuid_generate_v4 (kitchen\<lparr>db_uuid_generate_v4 := True\<rparr>) \<and>
   recipe_exists (kitchen\<lparr>db_uuid_generate_v4 := True\<rparr>) 1 \<and>
   rows_of_pair (kitchen\<lparr>db_uuid_generate_v4 := True\<rparr>) 1 ''bob'' = [] \<and>
   map (field_of K_flavor)
     (rows_of_pair (snd (CustomPrismaClient_rateRecipe 5 (kitchen\<lparr>db_uuid_generate_v4 := True\<rparr>)
                           1 ''bob'' (payload (Some 2) (Some 0) None))) 1 ''bob'') = [None] \<and>
   rows_of_pair pantry 1 ''B'' = [rated 3 1 ''B'' None (Some 4) None] \<and>
   map (field_of K_flavor)
     (rows_of_pair (snd (CustomPrismaClient_rateRecipe 5 pantry 1 ''B''
                           (payload (Some 2) (Some 0) None))) 1 ''B'') = [Some 0]"
proof -
  have h: "payload_field K_flavor (payload (Some 2) (Some 0) None) = Some 0"
    by (simp add: payload_def)
  have db: "db_uuid_generate_v4 (kitchen\<lparr>db_uuid_generate_v4 := True\<rparr>)"
    by simp
  have ex: "recipe_exists (kitchen\<lparr>db_uuid_generate_v4 := True\<rparr>) 1"
    by (simp add: recipe_exists_def kitchen_def soup_def)
  have nil: "rows_of_pair (kitchen\<lparr>db_uuid_generate_v4 := True\<rparr>) 1 ''bob'' = []"
    by (simp add: rows_of_pair_def kitchen_def)
  have rows: "rows_of_pair pantry 1 ''B'' = [rated 3 1 ''B'' None (Some 4) None]"
    by (simp add: rows_of_pair_def pantry_def rated_def)
  have some: "rows_of_pair pantry 1 ''B'' \<noteq> []"
    unfolding rows by simp
  note a = rateRecipe_insert_zero_is_null [OF h, where i = 2 and t = 5 and rid = 1
             and uid = "''bob''" and s = "kitchen\<lparr>db_uuid_generate_v4 := True\<rparr>"]
  note b = rateRecipe_insert_zero_is_null [OF h, where i = 2 and t = 5 and rid = 1
             and uid = "''B''" and s = pantry]
  note ins = mp [OF conjunct1 [OF conjunct2 [OF conjunct2 [OF a]]] conjI [OF db conjI [OF ex nil]]]
  note upd = mp [OF conjunct2 [OF conjunct2 [OF conjunct2 [OF b]]] some, unfolded rows list.map]
  from h conjunct1 [OF a] db ex nil conjunct1 [OF conjunct2 [OF ins]] rows upd
  show ?thesis by (intro conjI)
qed

section \<open>Listing with filters\<close>

lemma field_of_flavor: "field_of K_flavor = rr_flavor"
  by (rule ext) simp

lemma flavor_add_averages:
  "(case wd_averageRatings (add_averages (with_includes s r)) of None \<Rightarrow> 0 | Some a \<Rightarrow> ar_flavor a)
     = flavor_mean s (r_id r)"
  by (simp add: add_averages_def with_includes_def averageRatings_def
        calculateAverageRating_present flavor_mean_def present_def ratings_of_def
        field_of_flavor)

lemma flavor_of_add_averages:
  "map_option ar_flavor (wd_averageRatings (add_averages (with_includes s r)))
     = Some (flavor_mean s (r_id r))"
  by (simp add: add_averages_def with_includes_def averageRatings_def
        calculateAverageRating_present flavor_mean_def present_def ratings_of_def
        field_of_flavor)

lemma where_ignores_minRating:
  "listRecipes_where fam (Some (f\<lparr>f_minRating := x\<rparr>)) = listRecipes_where fam (Some f)"
  by (simp add: listRecipes_where_def)

lemma list_ex_filter: "list_ex P (filter Q xs) = list_ex (\<lambda>x. Q x \<and> P x) xs"
  by (induction xs) auto

lemma item_contains:
  "(case item_name s iid of None \<Rightarrow> False | Some nm \<Rightarrow> contains nm n)
     = (case find (\<lambda>it. i_id it = iid) (Item_tbl s) of
          None \<Rightarrow> False | Some it \<Rightarrow> contains (i_name it) n)"
  by (simp add: item_name_def split: option.splits)

lemma matches_is_passes:
  "recipe_matches contains s (listRecipes_where fam (Some f)) r = passes_filters contains s fam f r"
  unfolding recipe_matches_def passes_filters_def listRecipes_where_def
  by (cases "f_name f"; cases "f_difficulty f"; cases "f_maxPrepTime f"; cases "f_maxCookTime f";
      cases "f_ingredient f")
     (simp_all add: str_or_null_def num_or_null_def ingredients_of_def list_ex_filter
        item_contains)

lemma matches_eq_passes:
  "recipe_matches contains s (listRecipes_where fam (Some f)) = passes_filters contains s fam f"
  by (rule ext) (rule matches_is_passes)

text \<open>
  C7, as the code has it. For a filter with a minRating value m, listRecipes returns, in
  table order, exactly the recipes that pass the filters other than minRating and, when
  m is not 0, whose mean flavor score is at least m; each is returned with that mean as
  its flavor average. Only the flavor field enters the comparison, and the query sent to
  the repository is the one of the filter without minRating. When m is 0 the service
  skips the comparison and returns every recipe that passes the other filters.
\<close>

theorem listRecipes_minRating_flavor:
  assumes "f_minRating f = Some m"
  shows "map wd_recipe (RecipeService_listRecipes contains s fam (Some f))
           = filter (\<lambda>r. passes_filters contains s fam f r
                          \<and> (m = 0 \<or> m \<le> flavor_mean s (r_id r)))
                    (Recipe_tbl s) \<and>
         map (\<lambda>d. map_option ar_flavor (wd_averageRatings d))
             (RecipeService_listRecipes contains s fam (Some f))
           = map (\<lambda>r. Some (flavor_mean s (r_id r)))
               (filter (\<lambda>r. passes_filters contains s fam f r
                              \<and> (m = 0 \<or> m \<le> flavor_mean s (r_id r)))
                       (Recipe_tbl s)) \<and>
         listRecipes_where fam (Some f) = listRecipes_where fam (Some (f\<lparr>f_minRating := None\<rparr>))"
proof -
  have row: "wd_recipe (add_averages (with_includes s r)) = r" for r
    by (simp add: add_averages_def with_includes_def)
  have list: "RecipeService_listRecipes contains s fam (Some f)
      = map (\<lambda>r. add_averages (with_includes s r))
          (filter (\<lambda>r. passes_filters contains s fam f r
                         \<and> (m = 0 \<or> m \<le> flavor_mean s (r_id r)))
                  (Recipe_tbl s))"
  proof (cases "m = 0")
    case True
    with assms show ?thesis
      by (simp add: RecipeService_listRecipes_def recipe_findMany_def num_or_null_def
            matches_eq_passes comp_def)
  next
    case False
    with assms show ?thesis
      by (simp add: RecipeService_listRecipes_def recipe_findMany_def num_or_null_def
            matches_eq_passes matches_is_passes filter_map comp_def flavor_add_averages)
  qed
  show ?thesis
    unfolding list
    by (simp add: comp_def row flavor_of_add_averages where_ignores_minRating)
qed


text \<open>
  With minRating = 3 only the first recipe (flavor mean 3) is returned; the second has
  flavor mean 2 although its nutrition mean is 5. With maxPrepTime = 5 as well, nothing is
  returned: the first recipe takes 10 minutes to prepare.
\<close>

theorem listRecipes_minRating_flavor_witness:
  "f_minRating (no_filters\<lparr>f_minRating := Some 3\<rparr>) = Some 3 \<and>
   map wd_recipe (RecipeService_listRecipes substring pantry ''fam''
                    (Some (no_filters\<lparr>f_minRating := Some 3\<rparr>))) = [soup] \<and>
   map wd_recipe (RecipeService_listRecipes substring pantry ''fam''
                    (Some (no_filters\<lparr>f_maxPrepTime := Some 5, f_minRating := Some 3\<rparr>))) = [] \<and>
   flavor_mean pantry (r_id soup) = 3 \<and> flavor_mean pantry (r_id stew) = 2 \<and>
   mean (present K_nutrition (ratings_of pantry (r_id stew))) = 5"
proof -
  have h1: "f_minRating (no_filters\<lparr>f_minRating := Some 3\<rparr>) = Some 3"
    by simp
  have h2: "f_minRating (no_filters\<lparr>f_maxPrepTime := Some 5, f_minRating := Some 3\<rparr>) = Some 3"
    by simp
  have m1: "flavor_mean pantry (r_id soup) = 3"
    by (simp add: flavor_mean_def mean_def pantry_def rated_def soup_def List.map_filter_simps)
  have m2: "flavor_mean pantry (r_id stew) = 2"
    by (simp add: flavor_mean_def mean_def pantry_def rated_def stew_def List.map_filter_simps)
  have m3: "mean (present K_nutrition (ratings_of pantry (r_id stew))) = 5"
    by (simp add: mean_def present_def ratings_of_def pantry_def rated_def stew_def
          List.map_filter_simps)
  have tbl: "Recipe_tbl pantry = [soup, stew]"
    by (simp add: pantry_def)
  have fam: "r_familyId soup = ''fam''" "r_familyId stew = ''fam''"
    "r_prepTime soup = 10" "r_prepTime stew = 15"
    by (simp_all add: soup_def stew_def)
  have a: "map wd_recipe (RecipeService_listRecipes substring pantry ''fam''
                    (Some (no_filters\<lparr>f_minRating := Some 3\<rparr>))) = [soup]"
    unfolding conjunct1 [OF listRecipes_minRating_flavor [OF h1]] tbl
    by (simp add: m1 m2 fam passes_filters_def no_filters_def)
  have b: "map wd_recipe (RecipeService_listRecipes substring pantry ''fam''
                    (Some (no_filters\<lparr>f_maxPrepTime := Some 5, f_minRating := Some 3\<rparr>))) = []"
    unfolding conjunct1 [OF listRecipes_minRating_flavor [OF h2]] tbl
    by (simp add: m1 m2 fam passes_filters_def no_filters_def)
  from h1 a b m1 m2 m3 show ?thesis by (intro conjI)
qed

text \<open>
  RecipeService.rateRecipe stores the score it is given; after a flavor of -1, a listing
  with minRating = 0 returns the recipe, whose mean flavor is -1.
\<close>

theorem listRecipes_minRating_zero_returns_all:
  "map wd_recipe
     (RecipeService_listRecipes substring
        (snd (RecipeService_rateRecipe 5 kitchen 1 ''bob'' (payload None (Some (- 1)) None)))
        ''fam'' (Some (no_filters\<lparr>f_minRating := Some 0\<rparr>))) = [soup] \<and>
   flavor_mean (snd (RecipeService_rateRecipe 5 kitchen 1 ''bob'' (payload None (Some (- 1)) None))) 1
     = - 1"
  by (simp add: RecipeService_listRecipes_def recipe_findMany_def recipe_matches_def
        listRecipes_where_def no_filters_def str_or_null_def num_or_null_def add_averages_def
        with_includes_def RecipeService_rateRecipe_def recipeRating_upsert_def ratings_for_def
        recipe_findUnique_def recipe_exists_def uuid_def score_default_def payload_def
        kitchen_def soup_def flavor_mean_def mean_def List.map_filter_simps)

text \<open>
  C10. A maxPrepTime, maxCookTime or minRating of 0 is treated by listRecipes as if the
  field were absent: the result is the result of the filter without that field.
\<close>

theorem listRecipes_zero_filter_absent:
  "RecipeService_listRecipes contains s fam (Some (f\<lparr>f_maxPrepTime := Some 0\<rparr>))
     = RecipeService_listRecipes contains s fam (Some (f\<lparr>f_maxPrepTime := None\<rparr>)) \<and>
   RecipeService_listRecipes contains s fam (Some (f\<lparr>f_maxCookTime := Some 0\<rparr>))
     = RecipeService_listRecipes contains s fam (Some (f\<lparr>f_maxCookTime := None\<rparr>)) \<and>
   RecipeService_listRecipes contains s fam (Some (f\<lparr>f_minRating := Some 0\<rparr>))
     = RecipeService_listRecipes contains s fam (Some (f\<lparr>f_minRating := None\<rparr>))"
  by (simp add: RecipeService_listRecipes_def listRecipes_where_def num_or_null_def)

text \<open>
  With maxPrepTime = 0 both recipes of the family are returned, of prep time 10 and 15:
  not the recipes of prep time at most 0.
\<close>

theorem listRecipes_zero_filter_absent_witness:
  "map (\<lambda>d. r_prepTime (wd_recipe d))
     (RecipeService_listRecipes (\<lambda>hay needle. False) pantry ''fam''
        (Some (no_filters\<lparr>f_maxPrepTime := Some 0\<rparr>))) = [10, 15]"
proof -
  have "map (\<lambda>d. r_prepTime (wd_recipe d))
     (RecipeService_listRecipes (\<lambda>hay needle. False) pantry ''fam''
        (Some (no_filters\<lparr>f_maxPrepTime := None\<rparr>))) = [10, 15]"
    by (simp add: RecipeService_listRecipes_def recipe_findMany_def recipe_matches_def
          listRecipes_where_def no_filters_def pantry_def soup_def stew_def
          str_or_null_def num_or_null_def add_averages_def with_includes_def)
  then show ?thesis
    unfolding conjunct1 [OF listRecipes_zero_filter_absent] .
qed

section \<open>Counting by minimum rating\<close>

text \<open>
  C8. A recipe with the rating rows (3, 3, 2) and (3, 3, 4): the mean over the rows of
  (nutrition + flavor + difficulty) / 3 is 3, so a count with minRating = 3 should include
  it. countRecipes divides integers, scores the rows 2 and 3, averages them to 5/2 and
  counts no recipe.
\<close>

theorem countRecipes_integer_quotient:
  "joint_mean (ratings_of larder 1) = 3 \<and>
   CustomPrismaClient_countRecipes larder (Some (minRating_only 3)) = 0 \<and>
   map row_score (ratings_of larder 1) = [2, 3]"
  by (simp add: joint_mean_def ratings_of_def larder_def rated_def soup_def coalesce_def
        CustomPrismaClient_countRecipes_def count_conditions_def minRating_only_def
        str_or_null_def num_or_null_def minRating_condition_def sql_avg_def row_score_def
        sql_int_div_def)

section \<open>Usage count\<close>

text \<open>
  C5. For an id that no recipe has, CustomPrismaClient.incrementUsageCount returns without
  an error and leaves the store as it is; RecipeService.incrementUsageCount fails on the
  same id.
\<close>

theorem incrementUsageCount_missing_id:
  "recipe_exists kitchen 99 = False \<and>
   CustomPrismaClient_incrementUsageCount 7 kitchen 99 = (Inr (), kitchen) \<and>
   RecipeService_incrementUsageCount 7 kitchen 99 = (Inl RecordNotFound, kitchen)"
  by (simp add: recipe_exists_def kitchen_def soup_def CustomPrismaClient_incrementUsageCount_def
        RecipeService_incrementUsageCount_def recipe_update_def recipe_findUnique_def then_do_def)

section \<open>Creating a recipe with its ingredients\<close>

text \<open>
  C4. A create whose second ingredient names an item that does not exist:
  RecipeService.createRecipe fails on the foreign key after the recipe row is written, and
  the row stays, without any ingredient. CustomPrismaClient.createRecipe leaves the store
  unchanged on the same input: on the declared database its first \<open>INSERT\<close> fails for want
  of \<open>uuid_generate_v4()\<close>, and on a database that defines the function the ingredient's
  foreign key fails and the transaction is rolled back.
\<close>

theorem createRecipe_service_partial_rows:
  "fst (RecipeService_createRecipe 7 kitchen ''bob'' ''fam'' broth) = Inl ForeignKeyViolation \<and>
   map r_name (Recipe_tbl (snd (RecipeService_createRecipe 7 kitchen ''bob'' ''fam'' broth)))
     = [''Soup'', ''Broth''] \<and>
   RecipeIngredient_tbl (snd (RecipeService_createRecipe 7 kitchen ''bob'' ''fam'' broth)) = [] \<and>
   CustomPrismaClient_createRecipe 7 kitchen ''bob'' ''fam'' broth = (Inl NoSuchFunction, kitchen) \<and>
   CustomPrismaClient_createRecipe 7 (kitchen\<lparr>db_uuid_generate_v4 := True\<rparr>) ''bob'' ''fam'' broth
     = (Inl ForeignKeyViolation, kitchen\<lparr>db_uuid_generate_v4 := True\<rparr>)"
  by (simp add: RecipeService_createRecipe_def CustomPrismaClient_createRecipe_def recipe_create_def
        recipeIngredient_createMany_def transaction_def then_do_def uuid_def insert_ingredient_def
        raw_insert_ingredient_def recipe_exists_def item_exists_def kitchen_def soup_def broth_def
        notes_or_null_def str_or_null_def Let_def)

section \<open>Who may update and delete\<close>

lemma insert_ingredients_error:
  "insert_ingredients now rid xs s = (Inl e, s') \<Longrightarrow> e = ForeignKeyViolation"
proof (induction xs arbitrary: s)
  case Nil
  then show ?case by simp
next
  case (Cons x xs)
  then show ?case
    by (auto simp: then_do_def insert_ingredient_def uuid_def Let_def split: if_splits)
qed

lemma raw_insert_ingredients_error:
  "raw_insert_ingredients now rid xs s = (Inl e, s')
     \<Longrightarrow> e = ForeignKeyViolation \<or> e = NoSuchFunction"
proof (induction xs arbitrary: s)
  case Nil
  then show ?case by simp
next
  case (Cons x xs)
  then show ?case
    by (auto simp: then_do_def raw_insert_ingredient_def insert_ingredient_def uuid_def Let_def
             split: if_splits)
qed

lemma findRecipeById_found:
  "recipe_findUnique s rid = Some r \<Longrightarrow> \<exists>res. findRecipeById s rid b = Some res \<and> res_row res = r"
  by (simp add: findRecipeById_def recipe_findUnique_def Let_def)

lemma client_update_error:
  "fst (CustomPrismaClient_updateRecipe now s rid data) = Inl e
     \<Longrightarrow> e = ForeignKeyViolation \<or> e = NoSuchFunction
         \<or> e = Error ''Failed to update recipe''"
  unfolding CustomPrismaClient_updateRecipe_def transaction_def then_do_def Let_def
  by (auto split: prod.splits sum.splits option.splits if_splits
           dest: raw_insert_ingredients_error)

lemma client_delete_found:
  "recipe_findUnique s rid = Some r \<Longrightarrow>
     fst (CustomPrismaClient_deleteRecipe s rid) = Inr (the (findRecipeById s rid False)) \<and>
     snd (CustomPrismaClient_deleteRecipe s rid) = delete_cascade s rid"
  by (simp add: CustomPrismaClient_deleteRecipe_def findRecipeById_def recipe_findUnique_def Let_def)

text \<open>
  C1, as the code has it. For an existing recipe, RecipeService.updateRecipe and
  deleteRecipe fail with their 'Not authorized' error and leave the store unchanged for
  every caller whose userId is not the owner's, whatever the caller's family; the owner's
  delete succeeds. RecipeController.updateRecipe and deleteRecipe fail with FORBIDDEN
  exactly when the caller is neither the owner nor of the recipe's family: the owner and
  every member of the family pass the check, and their delete succeeds.
\<close>

theorem update_delete_authorization:
  assumes "recipe_findUnique s rid = Some r"
  shows "(userId \<noteq> r_userId r \<longrightarrow>
            RecipeService_updateRecipe now s rid userId input
              = (Inl (Error ''Not authorized to update this recipe''), s) \<and>
            RecipeService_deleteRecipe s rid userId
              = (Inl (Error ''Not authorized to delete this recipe''), s)) \<and>
         RecipeService_deleteRecipe s rid (r_userId r) = (Inr (), delete_cascade s rid) \<and>
         (uc_id user \<noteq> r_userId r \<and> uc_familyId user \<noteq> r_familyId r \<longrightarrow>
            RecipeController_updateRecipe now s user rid data = (Inl (RecipeError FORBIDDEN), s) \<and>
            RecipeController_deleteRecipe s user rid = (Inl (RecipeError FORBIDDEN), s)) \<and>
         (uc_id user = r_userId r \<or> uc_familyId user = r_familyId r \<longrightarrow>
            fst (RecipeController_updateRecipe now s user rid data) \<noteq> Inl (RecipeError FORBIDDEN) \<and>
            RecipeController_deleteRecipe s user rid = (Inr (), delete_cascade s rid))"
proof (intro conjI impI)
  assume "userId \<noteq> r_userId r"
  with assms show "RecipeService_updateRecipe now s rid userId input
              = (Inl (Error ''Not authorized to update this recipe''), s)"
    by (simp add: RecipeService_updateRecipe_def)
next
  assume "userId \<noteq> r_userId r"
  with assms show "RecipeService_deleteRecipe s rid userId
              = (Inl (Error ''Not authorized to delete this recipe''), s)"
    by (simp add: RecipeService_deleteRecipe_def)
next
  from assms show "RecipeService_deleteRecipe s rid (r_userId r) = (Inr (), delete_cascade s rid)"
    by (simp add: RecipeService_deleteRecipe_def recipe_delete_def then_do_def)
next
  assume "uc_id user \<noteq> r_userId r \<and> uc_familyId user \<noteq> r_familyId r"
  with findRecipeById_found [OF assms, of True]
  show "RecipeController_updateRecipe now s user rid data = (Inl (RecipeError FORBIDDEN), s)"
    by (auto simp: RecipeController_updateRecipe_def)
next
  assume "uc_id user \<noteq> r_userId r \<and> uc_familyId user \<noteq> r_familyId r"
  with findRecipeById_found [OF assms, of True]
  show "RecipeController_deleteRecipe s user rid = (Inl (RecipeError FORBIDDEN), s)"
    by (auto simp: RecipeController_deleteRecipe_def)
next
  assume ok: "uc_id user = r_userId r \<or> uc_familyId user = r_familyId r"
  from findRecipeById_found [OF assms, of True] obtain res
    where res: "findRecipeById s rid True = Some res" "res_row res = r" by blast
  show "fst (RecipeController_updateRecipe now s user rid data) \<noteq> Inl (RecipeError FORBIDDEN)"
  proof (cases "recipeSchema_partial data")
    case True
    with res ok have "RecipeController_updateRecipe now s user rid data
        = CustomPrismaClient_updateRecipe now s rid data"
      by (auto simp: RecipeController_updateRecipe_def)
    with client_update_error [of now s rid data "RecipeError FORBIDDEN"]
    show ?thesis by auto
  next
    case False
    with res ok show ?thesis
      by (auto simp: RecipeController_updateRecipe_def)
  qed
next
  assume ok: "uc_id user = r_userId r \<or> uc_familyId user = r_familyId r"
  from findRecipeById_found [OF assms, of True] obtain res
    where res: "findRecipeById s rid True = Some res" "res_row res = r" by blast
  from client_delete_found [OF assms]
  have "then_do (CustomPrismaClient_deleteRecipe s rid) (\<lambda>_ s1. (Inr (), s1))
          = (Inr (), delete_cascade s rid)"
    by (cases "CustomPrismaClient_deleteRecipe s rid") (simp add: then_do_def)
  with res ok show "RecipeController_deleteRecipe s user rid = (Inr (), delete_cascade s rid)"
    by (auto simp: RecipeController_deleteRecipe_def)
qed

theorem update_delete_authorization_witness:
  "recipe_findUnique kitchen 1 = Some soup \<and>
   RecipeService_updateRecipe 9 kitchen 1 ''bob'' (rename ''Stew'')
     = (Inl (Error ''Not authorized to update this recipe''), kitchen) \<and>
   RecipeService_deleteRecipe kitchen 1 ''bob''
     = (Inl (Error ''Not authorized to delete this recipe''), kitchen) \<and>
   RecipeController_updateRecipe 9 kitchen (user_ctx ''mallory'' ''other'') 1 (rename ''Stew'')
     = (Inl (RecipeError FORBIDDEN), kitchen) \<and>
   RecipeController_deleteRecipe kitchen (user_ctx ''mallory'' ''other'') 1
     = (Inl (RecipeError FORBIDDEN), kitchen)"
proof -
  have h: "recipe_findUnique kitchen 1 = Some soup"
    by (simp add: recipe_findUnique_def kitchen_def soup_def)
  have bob: "''bob'' \<noteq> r_userId soup"
    by (simp add: soup_def)
  have mallory: "uc_id (user_ctx ''mallory'' ''other'') \<noteq> r_userId soup \<and>
                 uc_familyId (user_ctx ''mallory'' ''other'') \<noteq> r_familyId soup"
    by (simp add: soup_def user_ctx_def)
  note t = update_delete_authorization [OF h, where userId = "''bob''"
             and user = "user_ctx ''mallory'' ''other''" and now = 9
             and input = "rename ''Stew''" and data = "rename ''Stew''"]
  from t bob mallory h show ?thesis by blast
qed

text \<open>
  A member of the recipe's family who is not its owner renames the recipe and deletes it
  through the controller.
\<close>

theorem family_member_updates_and_deletes:
  "recipe_findUnique kitchen 1 = Some soup \<and>
   uc_id (user_ctx ''bob'' ''fam'') \<noteq> r_userId soup \<and>
   uc_familyId (user_ctx ''bob'' ''fam'') = r_familyId soup \<and>
   RecipeController_updateRecipe 9 kitchen (user_ctx ''bob'' ''fam'') 1 (rename ''Stew'')
     = (Inr \<lparr> res_row = soup\<lparr>r_name := ''Stew'', r_updatedAt := 9\<rparr>,
               res_details = Some \<lparr> det_ingredients = [], det_ratings = [],
                                     det_averageRatings = (None, None, None) \<rparr> \<rparr>,
        kitchen\<lparr>Recipe_tbl := [soup\<lparr>r_name := ''Stew'', r_updatedAt := 9\<rparr>]\<rparr>) \<and>
   RecipeController_deleteRecipe kitchen (user_ctx ''bob'' ''fam'') 1
     = (Inr (), kitchen\<lparr>Recipe_tbl := []\<rparr>)"
  by (simp add: recipe_findUnique_def kitchen_def soup_def user_ctx_def rename_def
        RecipeController_updateRecipe_def RecipeController_deleteRecipe_def
        CustomPrismaClient_updateRecipe_def CustomPrismaClient_deleteRecipe_def
        findRecipeById_def joined_rows_def left_join_def ingredients_of_def ratings_of_def
        recipeSchema_partial_def opt_ok_def recipe_setClauses_def apply_sets_def
        transaction_def then_do_def delete_cascade_def avg_column_def sql_avg_def
        List.map_filter_simps Let_def)

section \<open>Cloning a recipe\<close>

text \<open>Inserting lines whose items exist succeeds and appends one row per line.\<close>

lemma insert_ingredients_ok:
  assumes "recipe_exists s rid" and "list_all (\<lambda>i. item_exists s (ii_itemId i)) xs"
  shows "insert_ingredients now rid xs s
         = (Inr (), s\<lparr>RecipeIngredient_tbl :=
                        RecipeIngredient_tbl s @ ingredient_rows now rid (nextId s) xs,
                      nextId := nextId s + length xs\<rparr>)"
  using assms
proof (induction xs arbitrary: s)
  case Nil
  then show ?case by simp
next
  case (Cons x xs)
  let ?s' = "s\<lparr>nextId := Suc (nextId s), RecipeIngredient_tbl := RecipeIngredient_tbl s @
       [\<lparr> ri_id = nextId s, ri_recipeId = rid, ri_itemId = ii_itemId x,
          ri_quantity = ii_quantity x, ri_unit = ii_unit x, ri_notes = ii_notes x,
          ri_createdAt = now, ri_updatedAt = now \<rparr>]\<rparr>"
  have one: "insert_ingredient now rid x s = (Inr (), ?s')"
    using Cons.prems by (simp add: insert_ingredient_def uuid_def)
  have ex: "recipe_exists ?s' rid"
    using Cons.prems by (simp add: recipe_exists_def)
  have it: "list_all (\<lambda>i. item_exists ?s' (ii_itemId i)) xs"
    using Cons.prems by (simp add: item_exists_def)
  show ?case
    by (simp add: one then_do_def Cons.IH [OF ex it])
qed

lemma ingredient_rows_data: "map ingredientData (ingredient_rows now rid n xs) = xs"
  by (induction xs arbitrary: n) (simp_all add: ingredientData_def)


lemma ingredient_rows_recipe:
  "filter (\<lambda>i. ri_recipeId i = rid) (ingredient_rows now rid n xs) = ingredient_rows now rid n xs"
  by (induction xs arbitrary: n) simp_all


lemma filter_none_below:
  "list_all (\<lambda>x. f x < (n::nat)) xs \<Longrightarrow> filter (\<lambda>x. f x = n) xs = []"
  by (induction xs) auto





section \<open>What the repository operations guarantee\<close>

text \<open>
  CustomPrismaClient.incrementUsageCount never fails; it adds exactly 1 to the usage count
  of the recipe of the given id and leaves every other recipe, and every id, as it was.
\<close>

lemma incrementUsageCount_present:
  "fst (CustomPrismaClient_incrementUsageCount now s rid) = Inr () \<and>
   map r_usageCount (filter (\<lambda>x. r_id x = rid)
       (Recipe_tbl (snd (CustomPrismaClient_incrementUsageCount now s rid))))
     = map (\<lambda>x. r_usageCount x + 1) (filter (\<lambda>x. r_id x = rid) (Recipe_tbl s)) \<and>
   filter (\<lambda>x. r_id x \<noteq> rid) (Recipe_tbl (snd (CustomPrismaClient_incrementUsageCount now s rid)))
     = filter (\<lambda>x. r_id x \<noteq> rid) (Recipe_tbl s) \<and>
   map r_id (Recipe_tbl (snd (CustomPrismaClient_incrementUsageCount now s rid)))
     = map r_id (Recipe_tbl s)"
proof -
  have a: "map r_usageCount (filter (\<lambda>x. r_id x = rid)
             (map (\<lambda>r. if r_id r = rid
                        then r\<lparr>r_usageCount := r_usageCount r + 1, r_updatedAt := now\<rparr> else r) xs))
           = map (\<lambda>x. r_usageCount x + 1) (filter (\<lambda>x. r_id x = rid) xs)" for xs
    by (induction xs) auto
  have b: "filter (\<lambda>x. r_id x \<noteq> rid)
             (map (\<lambda>r. if r_id r = rid
                        then r\<lparr>r_usageCount := r_usageCount r + 1, r_updatedAt := now\<rparr> else r) xs)
           = filter (\<lambda>x. r_id x \<noteq> rid) xs" for xs
    by (induction xs) auto
  have c: "map r_id
             (map (\<lambda>r. if r_id r = rid
                        then r\<lparr>r_usageCount := r_usageCount r + 1, r_updatedAt := now\<rparr> else r) xs)
           = map r_id xs" for xs
    by (induction xs) auto
  from a [of "Recipe_tbl s"] b [of "Recipe_tbl s"] c [of "Recipe_tbl s"]
  show ?thesis
    by (simp add: CustomPrismaClient_incrementUsageCount_def)
qed

lemma insert_ingredient_db:
  "insert_ingredient now rid ing s = (res, s') \<Longrightarrow> db_uuid_generate_v4 s' = db_uuid_generate_v4 s"
  by (auto simp: insert_ingredient_def uuid_def Let_def split: if_splits)

lemma raw_insert_ingredients_defined:
  "db_uuid_generate_v4 s \<Longrightarrow>
     raw_insert_ingredients now rid xs s = insert_ingredients now rid xs s"
proof (induction xs arbitrary: s)
  case Nil
  show ?case by simp
next
  case (Cons x xs)
  obtain res s' where one: "insert_ingredient now rid x s = (res, s')"
    by (cases "insert_ingredient now rid x s")
  from insert_ingredient_db [OF one] Cons.prems have "db_uuid_generate_v4 s'" by simp
  from Cons.IH [OF this] Cons.prems one show ?case
    by (cases res) (simp_all add: raw_insert_ingredient_def then_do_def)
qed

text \<open>
  CustomPrismaClient.createRecipe is atomic: when it fails the store is unchanged, and it
  fails on every input where the database does not define \<open>uuid_generate_v4()\<close>. Where the
  database defines it and the items of all ingredients exist, the call succeeds, returns
  what a read of the new recipe gives, and the stored ingredient lines are the submitted
  ones, in order, with empty notes stored as null.
\<close>

lemma transaction_atomic:
  "fst (transaction body s) = Inl e \<Longrightarrow> snd (transaction body s) = s"
  by (cases "body s") (auto simp: transaction_def split: sum.splits)

lemma createRecipe_client_atomic:
  "fst (CustomPrismaClient_createRecipe now s userId familyId data) = Inl e
     \<Longrightarrow> snd (CustomPrismaClient_createRecipe now s userId familyId data) = s"
  unfolding CustomPrismaClient_createRecipe_def by (rule transaction_atomic)

lemma createRecipe_client_undefined:
  "\<not> db_uuid_generate_v4 s \<Longrightarrow>
     CustomPrismaClient_createRecipe now s userId familyId data = (Inl NoSuchFunction, s)"
  by (simp add: CustomPrismaClient_createRecipe_def transaction_def)

lemma createRecipe_client_read:
  assumes "ids_issued s" and "db_uuid_generate_v4 s"
    and "list_all (\<lambda>i. item_exists s (ii_itemId i)) (c_ingredients data)"
  shows "fst (CustomPrismaClient_createRecipe now s userId familyId data)
           = Inr (findRecipeById (snd (CustomPrismaClient_createRecipe now s userId familyId data))
                    (nextId s) True) \<and>
         map ingredientData
           (ingredients_of (snd (CustomPrismaClient_createRecipe now s userId familyId data))
              (nextId s))
           = map notes_or_null (c_ingredients data)"
proof -
  let ?row = "\<lparr> r_id = nextId s, r_name = c_name data,
                   r_description = str_or_null (c_description data),
                   r_instructions = c_instructions data, r_prepTime = c_prepTime data,
                   r_cookTime = c_cookTime data, r_servings = c_servings data,
                   r_difficulty = (case c_difficulty data of None \<Rightarrow> MEDIUM | Some d \<Rightarrow> d),
                   r_usageCount = 0, r_userId = userId, r_familyId = familyId,
                   r_createdAt = now, r_updatedAt = now \<rparr>"
  let ?s2 = "s\<lparr>nextId := Suc (nextId s), Recipe_tbl := Recipe_tbl s @ [?row]\<rparr>"
  let ?xs = "map notes_or_null (c_ingredients data)"
  have ex: "recipe_exists ?s2 (nextId s)"
    by (simp add: recipe_exists_def)
  have it: "list_all (\<lambda>i. item_exists ?s2 (ii_itemId i)) ?xs"
    using assms(3) by (simp add: item_exists_def notes_or_null_def list_all_iff)
  have db: "db_uuid_generate_v4 ?s2"
    using assms(2) by simp
  note ins = insert_ingredients_ok [OF ex it, of now]
  note raw = raw_insert_ingredients_defined [OF db, of now "nextId s" ?xs]
  have "list_all (\<lambda>i. ri_recipeId i < nextId s) (RecipeIngredient_tbl s)"
    using assms(1) by (simp add: ids_issued_def list_all_iff)
  note below = filter_none_below [OF this]
  show ?thesis
    using assms(2)
    by (simp add: CustomPrismaClient_createRecipe_def transaction_def uuid_def Let_def raw ins
          then_do_def)
       (simp add: ingredients_of_def below ingredient_rows_recipe ingredient_rows_data)
qed

lemma sum_list_of_int: "sum_list (map (\<lambda>x. of_int (f x)) xs) = (of_int (sum_list (map f xs)) :: rat)"
  by (induction xs) simp_all

text \<open>
  The rule countRecipes applies for a non-zero minRating: a recipe counts when it has a
  rating row and the mean of the rows' integer quotients is at least minRating.
\<close>

lemma countRecipes_minRating_rule:
  assumes "m \<noteq> 0"
  shows "CustomPrismaClient_countRecipes s (Some (minRating_only m))
         = length (filter (\<lambda>r. ratings_of s (r_id r) \<noteq> []
                               \<and> m \<le> mean (map row_score (ratings_of s (r_id r))))
                          (Recipe_tbl s))"
  using assms
  by (simp add: CustomPrismaClient_countRecipes_def count_conditions_def minRating_only_def
        str_or_null_def num_or_null_def minRating_condition_def sql_avg_def mean_def
        sum_list_of_int cong: conj_cong)

end
